theory Spec2Isabelle
  imports Complex_Main
begin

section \<open>JavaScript values used by the weather services\<close>

text \<open>
  The services read numbers out of JSON payloads and compute with them in IEEE-754
  double precision. A value that can stand where a number is expected is a finite
  double, written as the real number it denotes (\<open>Num\<close>), one of the infinities,
  \<open>NaN\<close>, \<open>undefined\<close> (reading past the end of an array) or \<open>null\<close> (a JSON
  \<open>null\<close> inside an array). The two zeros are not told apart: no operation of the
  sources distinguishes them.
\<close>

datatype jsnum = Num real | NaN | Undefined | Null | PosInf | NegInf

text \<open>Truthiness: \<open>0\<close>, \<open>NaN\<close>, \<open>undefined\<close> and \<open>null\<close> are falsy.\<close>

fun truthy :: "jsnum \<Rightarrow> bool" where
  "truthy (Num r) = (r \<noteq> 0)"
| "truthy NaN = False"
| "truthy Undefined = False"
| "truthy Null = False"
| "truthy PosInf = True"
| "truthy NegInf = True"

text \<open>\<open>ToNumber\<close>: \<open>null\<close> becomes 0 and \<open>undefined\<close> becomes \<open>NaN\<close>.\<close>

fun toNumber :: "jsnum \<Rightarrow> jsnum" where
  "toNumber Null = Num 0"
| "toNumber Undefined = NaN"
| "toNumber x = x"

text \<open>\<open>x === k\<close> against a numeric literal \<open>k\<close> converts nothing; \<open>x >= k\<close> and
  \<open>x <= k\<close> compare \<open>ToNumber x\<close>, and every comparison with \<open>NaN\<close> is false.\<close>

fun js_eq :: "jsnum \<Rightarrow> real \<Rightarrow> bool" where
  "js_eq (Num r) k = (r = k)"
| "js_eq NaN k = False"
| "js_eq Undefined k = False"
| "js_eq Null k = False"
| "js_eq PosInf k = False"
| "js_eq NegInf k = False"

fun js_ge :: "jsnum \<Rightarrow> real \<Rightarrow> bool" where
  "js_ge (Num r) k = (k \<le> r)"
| "js_ge NaN k = False"
| "js_ge Undefined k = False"
| "js_ge Null k = (k \<le> 0)"
| "js_ge PosInf k = True"
| "js_ge NegInf k = False"

fun js_le :: "jsnum \<Rightarrow> real \<Rightarrow> bool" where
  "js_le (Num r) k = (r \<le> k)"
| "js_le NaN k = False"
| "js_le Undefined k = False"
| "js_le Null k = (0 \<le> k)"
| "js_le PosInf k = False"
| "js_le NegInf k = True"

subsection \<open>Double-precision arithmetic\<close>

text \<open>
  Rounding to the nearest integer, ties to the even one; and rounding of a real to
  the nearest double, ties to the even significand. A double has 53 significant bits;
  below \<open>2 ^ - 1022\<close> the spacing stays at \<open>2 ^ - 1074\<close> (subnormal numbers), and a
  result that rounds to \<open>2 ^ 1024\<close> or more is an infinity.
\<close>

definition roundHalfEven :: "real \<Rightarrow> int" where
  "roundHalfEven q =
     (let f = \<lfloor>q\<rfloor> in
      if q - of_int f < 1 / 2 then f
      else if 1 / 2 < q - of_int f then f + 1
      else if even f then f else f + 1)"

text \<open>The power \<open>2 ^ e\<close> for an integer \<open>e\<close>, and the binary exponent of a positive
  real: the \<open>e\<close> with \<open>2 ^ e \<le> x < 2 ^ (e + 1)\<close>.\<close>

definition pow2 :: "int \<Rightarrow> real" where
  "pow2 e = (if 0 \<le> e then 2 ^ nat e else 1 / 2 ^ nat (- e))"

function binaryExponent :: "real \<Rightarrow> int" where
  "binaryExponent x =
     (if x \<le> 0 then 0
      else if 2 \<le> x then binaryExponent (x / 2) + 1
      else if x < 1 then binaryExponent (2 * x) - 1
      else 0)"
  by pat_completeness auto
termination
proof (relation "measure (\<lambda>x. nat \<bar>\<lfloor>log 2 x\<rfloor>\<bar>)")
  show "wf (measure (\<lambda>x. nat \<bar>\<lfloor>log 2 x\<rfloor>\<bar>))" by simp
next
  fix x :: real
  assume a: "\<not> x \<le> 0" "2 \<le> x"
  then have "log 2 (x / 2) = log 2 x - 1"
    by (simp add: log_divide)
  then have f: "\<lfloor>log 2 (x / 2)\<rfloor> = \<lfloor>log 2 x\<rfloor> - 1"
    by simp
  have "1 \<le> log 2 x"
    using a by (simp add: le_log_iff)
  then have "1 \<le> \<lfloor>log 2 x\<rfloor>"
    by (simp add: le_floor_iff)
  then show "(x / 2, x) \<in> measure (\<lambda>x. nat \<bar>\<lfloor>log 2 x\<rfloor>\<bar>)"
    unfolding in_measure f by arith
next
  fix x :: real
  assume a: "\<not> x \<le> 0" "\<not> 2 \<le> x" "x < 1"
  then have "log 2 (2 * x) = log 2 x + 1"
    by (simp add: log_mult)
  then have f: "\<lfloor>log 2 (2 * x)\<rfloor> = \<lfloor>log 2 x\<rfloor> + 1"
    by simp
  have "log 2 x < 0"
    using a by simp
  then have "\<lfloor>log 2 x\<rfloor> \<le> - 1"
    by (simp add: floor_le_iff)
  then show "(2 * x, x) \<in> measure (\<lambda>x. nat \<bar>\<lfloor>log 2 x\<rfloor>\<bar>)"
    unfolding in_measure f by arith
qed

definition fl :: "real \<Rightarrow> jsnum" where
  "fl x =
     (if x = 0 then Num 0
      else
        (let e = max (binaryExponent \<bar>x\<bar>) (- 1022);
             ulp = pow2 (e - 52);
             y = of_int (roundHalfEven (\<bar>x\<bar> / ulp)) * ulp
         in if 2 ^ 1024 \<le> y then (if 0 < x then PosInf else NegInf)
            else Num (if 0 < x then y else - y)))"

text \<open>\<open>a + b\<close> on two numbers: the exact sum, rounded; infinities of opposite sign
  and anything with \<open>NaN\<close> give \<open>NaN\<close>.\<close>

fun addNumbers :: "jsnum \<Rightarrow> jsnum \<Rightarrow> jsnum" where
  "addNumbers (Num a) (Num b) = fl (a + b)"
| "addNumbers PosInf NegInf = NaN"
| "addNumbers NegInf PosInf = NaN"
| "addNumbers PosInf (Num b) = PosInf"
| "addNumbers (Num a) PosInf = PosInf"
| "addNumbers PosInf PosInf = PosInf"
| "addNumbers NegInf (Num b) = NegInf"
| "addNumbers (Num a) NegInf = NegInf"
| "addNumbers NegInf NegInf = NegInf"
| "addNumbers _ _ = NaN"

definition js_add :: "jsnum \<Rightarrow> jsnum \<Rightarrow> jsnum" where
  "js_add a b = addNumbers (toNumber a) (toNumber b)"

text \<open>\<open>a / k\<close> for a positive numeric literal \<open>k\<close>: the sources divide by 2 and by
  1000 only.\<close>

fun divNumber :: "jsnum \<Rightarrow> real \<Rightarrow> jsnum" where
  "divNumber (Num a) k = fl (a / k)"
| "divNumber PosInf k = PosInf"
| "divNumber NegInf k = NegInf"
| "divNumber _ k = NaN"

definition js_div :: "jsnum \<Rightarrow> real \<Rightarrow> jsnum" where
  "js_div a k = divNumber (toNumber a) k"

text \<open>\<open>xs[i]\<close> on an array of numbers: \<open>undefined\<close> out of range.\<close>

definition js_index :: "jsnum list \<Rightarrow> nat \<Rightarrow> jsnum" where
  "js_index xs i = (if i < length xs then xs ! i else Undefined)"

text \<open>\<open>xs[i]\<close> on an array of strings: \<open>None\<close> stands for \<open>undefined\<close>.\<close>

definition js_index_str :: "string list \<Rightarrow> nat \<Rightarrow> string option" where
  "js_index_str xs i = (if i < length xs then Some (xs ! i) else None)"

text \<open>\<open>x || k\<close> for a number \<open>x\<close> and a numeric literal \<open>k\<close>.\<close>

definition js_or_num :: "jsnum \<Rightarrow> real \<Rightarrow> jsnum" where
  "js_or_num x k = (if truthy x then x else Num k)"

text \<open>\<open>s || t\<close> for a possibly undefined string \<open>s\<close>: the empty string is falsy too.\<close>

definition js_or_str :: "string option \<Rightarrow> string \<Rightarrow> string" where
  "js_or_str s t = (case s of None \<Rightarrow> t | Some v \<Rightarrow> if v = [] then t else v)"

section \<open>WMO code to icon code and description (weatherService)\<close>

definition getIconCode :: "jsnum \<Rightarrow> jsnum \<Rightarrow> string" where
  "getIconCode wmoCode isDay =
     (let suffix = (if truthy isDay then ''d'' else ''n'') in
      if js_eq wmoCode 0 then ''01'' @ suffix
      else if js_eq wmoCode 1 then ''02'' @ suffix
      else if js_eq wmoCode 2 then ''03'' @ suffix
      else if js_eq wmoCode 3 then ''04'' @ suffix
      else if js_eq wmoCode 45 \<or> js_eq wmoCode 48 then ''50'' @ suffix
      else if js_ge wmoCode 51 \<and> js_le wmoCode 57 then ''09'' @ suffix
      else if js_ge wmoCode 61 \<and> js_le wmoCode 67 then ''10'' @ suffix
      else if js_ge wmoCode 80 \<and> js_le wmoCode 82 then ''09'' @ suffix
      else if (js_ge wmoCode 71 \<and> js_le wmoCode 77) \<or> (js_ge wmoCode 85 \<and> js_le wmoCode 86)
        then ''13'' @ suffix
      else if js_ge wmoCode 95 \<and> js_le wmoCode 99 then ''11'' @ suffix
      else ''01'' @ suffix)"

text \<open>The object literal \<open>codes\<close> of \<open>getDescription\<close>, in source order.\<close>

definition codes :: "(real \<times> string) list" where
  "codes =
    [(0, ''Clear sky''),
     (1, ''Mainly clear''), (2, ''Partly cloudy''), (3, ''Overcast''),
     (45, ''Fog''), (48, ''Depositing rime fog''),
     (51, ''Light drizzle''), (53, ''Moderate drizzle''), (55, ''Dense drizzle''),
     (56, ''Light freezing drizzle''), (57, ''Dense freezing drizzle''),
     (61, ''Slight rain''), (63, ''Moderate rain''), (65, ''Heavy rain''),
     (66, ''Light freezing rain''), (67, ''Heavy freezing rain''),
     (71, ''Slight snow''), (73, ''Moderate snow''), (75, ''Heavy snow''),
     (77, ''Snow grains''),
     (80, ''Slight rain showers''), (81, ''Moderate rain showers''), (82, ''Violent rain showers''),
     (85, ''Slight snow showers''), (86, ''Heavy snow showers''),
     (95, ''Thunderstorm''), (96, ''Thunderstorm with slight hail''),
     (99, ''Thunderstorm with heavy hail'')]"

text \<open>\<open>codes[wmoCode]\<close>: the key is the value written as a string, so a number finds
  the entry with the same value, and \<open>NaN\<close>, \<open>undefined\<close>, \<open>null\<close> and the
  infinities (keys \<open>NaN\<close>, \<open>undefined\<close>, \<open>null\<close>, \<open>Infinity\<close>, \<open>-Infinity\<close>) find
  nothing.\<close>

fun codes_lookup :: "jsnum \<Rightarrow> string option" where
  "codes_lookup (Num r) = map_of codes r"
| "codes_lookup x = None"

definition getDescription :: "jsnum \<Rightarrow> string" where
  "getDescription wmoCode = js_or_str (codes_lookup wmoCode) ''Unknown''"

section \<open>Strings and arrays\<close>

text \<open>
  A JavaScript string is represented by the bytes of its UTF-8 encoding. Equality,
  concatenation, \<open>startsWith\<close>, \<open>includes\<close> and \<open>split(' ')\<close> with ASCII arguments
  give the same answers on the bytes as on the UTF-16 code units; \<open>length\<close> and
  \<open>trim\<close> do not, and are defined below on the encoding.
\<close>

text \<open>\<open>s.startsWith(p)\<close> and \<open>s.includes(p)\<close>.\<close>

fun startsWith :: "string \<Rightarrow> string \<Rightarrow> bool" where
  "startsWith s [] = True"
| "startsWith [] (p # ps) = False"
| "startsWith (c # cs) (p # ps) = (c = p \<and> startsWith cs ps)"

fun includes_str :: "string \<Rightarrow> string \<Rightarrow> bool" where
  "includes_str [] p = (p = [])"
| "includes_str (c # cs) p = (startsWith (c # cs) p \<or> includes_str cs p)"

text \<open>\<open>xs.findIndex(p)\<close>: the first index whose element satisfies \<open>p\<close>, or \<open>-1\<close>.\<close>

fun findIndexFrom :: "('a \<Rightarrow> bool) \<Rightarrow> 'a list \<Rightarrow> int \<Rightarrow> int" where
  "findIndexFrom p [] i = -1"
| "findIndexFrom p (x # xs) i = (if p x then i else findIndexFrom p xs (i + 1))"

definition findIndex :: "('a \<Rightarrow> bool) \<Rightarrow> 'a list \<Rightarrow> int" where
  "findIndex p xs = findIndexFrom p xs 0"






section \<open>Errors and HTTP outcomes\<close>

text \<open>
  A thrown value, with the three properties the catch blocks inspect. \<open>err_status\<close> is
  \<open>None\<close> when the property is absent or is not a string, \<open>err_code\<close> is
  \<open>Undefined\<close> when absent, \<open>err_message\<close> is \<open>None\<close> when absent.
\<close>

record js_error =
  err_status :: "string option"
  err_code :: jsnum
  err_message :: "string option"

text \<open>\<open>new Error(msg)\<close>.\<close>

definition Error :: "string \<Rightarrow> js_error" where
  "Error msg = \<lparr>err_status = None, err_code = Undefined, err_message = Some msg\<rparr>"

text \<open>The \<open>TypeError\<close> of reading property \<open>prop\<close> of \<open>undefined\<close> (V8's wording).\<close>

definition TypeError :: "string \<Rightarrow> js_error" where
  "TypeError prop = Error (''Cannot read properties of undefined (reading '' @ [CHR 0x27] @ prop @ [CHR 0x27] @ '')'')"

text \<open>An awaited promise either rejects with an error or resolves with a value.\<close>

datatype 'a promise = Rejected js_error | Resolved 'a

text \<open>
  \<open>Promise.all([p, q])\<close> rejects with the reason of the promise that rejects first in
  time; \<open>qFirst\<close> says that \<open>q\<close> settles before \<open>p\<close>.
\<close>

fun promise_all :: "bool \<Rightarrow> 'a promise \<Rightarrow> 'b promise \<Rightarrow> ('a \<times> 'b) promise" where
  "promise_all qFirst (Resolved a) (Resolved b) = Resolved (a, b)"
| "promise_all qFirst (Rejected e) (Resolved b) = Rejected e"
| "promise_all qFirst (Resolved a) (Rejected e) = Rejected e"
| "promise_all qFirst (Rejected e) (Rejected e') = Rejected (if qFirst then e' else e)"

section \<open>Types (types.ts)\<close>

datatype Unit = CELSIUS | FAHRENHEIT

record Coord =
  lon :: jsnum
  lat :: jsnum

record WeatherCondition =
  id_wc :: jsnum
  main_wc :: string
  description :: string
  icon :: string

record MainData =
  temp :: jsnum
  feels_like :: jsnum
  temp_min :: jsnum
  temp_max :: jsnum
  pressure :: jsnum
  humidity :: jsnum

record MainForecast = MainData +
  sea_level :: jsnum
  grnd_level :: jsnum
  temp_kf :: jsnum

record Wind =
  speed :: jsnum
  deg :: jsnum

record WindForecast = Wind +
  gust :: jsnum

record Clouds =
  all_c :: jsnum

record Sys =
  type_sys :: jsnum
  id_sys :: jsnum
  country :: string
  sunrise :: jsnum
  sunset :: jsnum

record Aqi =
  us_aqi :: jsnum
  pm2_5 :: jsnum
  pm10 :: jsnum
  co :: jsnum
  no2 :: jsnum
  so2 :: jsnum
  o3 :: jsnum

text \<open>\<open>dt\<close> is declared a number but receives the upstream \<open>current.time\<close>, an ISO
  timestamp string, unchanged; the model keeps the string.\<close>

record CurrentWeather =
  coord :: Coord
  weather :: "WeatherCondition list"
  base :: string
  main :: MainData
  visibility :: jsnum
  wind :: Wind
  clouds :: Clouds
  dt :: string
  sys :: Sys
  uv_index :: jsnum
  precipitation :: jsnum
  dew_point :: jsnum
  aqi :: "Aqi option"
  timezone :: jsnum
  id_cw :: jsnum
  name :: string
  cod :: jsnum

record ForecastItem =
  dt_f :: jsnum
  main_f :: MainForecast
  weather_f :: "WeatherCondition list"
  clouds_f :: Clouds
  wind_f :: WindForecast
  visibility_f :: jsnum
  pop_f :: jsnum
  dt_txt :: string

record HourlyItem =
  dt_h :: jsnum
  temp_h :: jsnum
  weather_h :: "WeatherCondition list"
  pop_h :: jsnum

text \<open>\<open>country\<close> of the forecast's city is the geocoder's value, which may be absent.\<close>

record City =
  id_city :: jsnum
  name_city :: string
  coord_city :: Coord
  country_city :: "string option"
  population :: jsnum
  timezone_city :: jsnum
  sunrise_city :: jsnum
  sunset_city :: jsnum

record ForecastResponse =
  cod_fr :: string
  message_fr :: jsnum
  cnt :: jsnum
  list_fr :: "ForecastItem list"
  hourly_fr :: "HourlyItem list"
  city_fr :: City

section \<open>Upstream payloads (Open-Meteo)\<close>

text \<open>One geocoding match.\<close>

record Location =
  latitude :: jsnum
  longitude :: jsnum
  name_loc :: string
  country_loc :: "string option"
  id_loc :: jsnum

text \<open>\<open>response.data\<close> of the geocoding call: \<open>results\<close> is absent when nothing matches.\<close>

record GeoData =
  results :: "Location list option"

record CurrentData =
  time_c :: string
  temperature_2m :: jsnum
  relative_humidity_2m :: jsnum
  apparent_temperature :: jsnum
  is_day :: jsnum
  precipitation_c :: jsnum
  weather_code :: jsnum
  cloud_cover :: jsnum
  wind_speed_10m :: jsnum
  wind_direction_10m :: jsnum
  surface_pressure :: jsnum
  dew_point_2m :: jsnum

record DailyCurrent =
  sunrise_d :: "string list"
  sunset_d :: "string list"
  uv_index_max :: "jsnum list"

text \<open>\<open>response.data\<close> of the current-weather call. A section missing from a malformed
  payload is \<open>None\<close>; the arrays inside a section that is present are arrays.\<close>

record WeatherData =
  current_w :: "CurrentData option"
  daily_w :: "DailyCurrent option"
  utc_offset_seconds :: jsnum

record AqiCurrent =
  us_aqi_a :: jsnum
  pm10_a :: jsnum
  pm2_5_a :: jsnum
  carbon_monoxide :: jsnum
  nitrogen_dioxide :: jsnum
  sulphur_dioxide :: jsnum
  ozone :: jsnum

record AqiData =
  current_a :: "AqiCurrent option"

record DailyForecast =
  time_d :: "string list"
  weather_code_d :: "jsnum list"
  temperature_2m_max :: "jsnum list"
  temperature_2m_min :: "jsnum list"
  precipitation_probability_max :: "jsnum list option"

record HourlyForecast =
  time_h :: "string list"
  temperature_2m_h :: "jsnum list"
  weather_code_h :: "jsnum list"
  is_day_h :: "jsnum list"
  precipitation_probability :: "jsnum list option"

record ForecastData =
  daily_fd :: "DailyForecast option"
  hourly_fd :: "HourlyForecast option"
  utc_offset_seconds_fd :: jsnum

subsection \<open>Request parameters\<close>

record GeoParams =
  name_p :: "string option"
  count_p :: nat
  language_p :: string
  format_p :: string

record WeatherParams =
  latitude_p :: jsnum
  longitude_p :: jsnum
  current_p :: "string option"
  daily_p :: "string option"
  hourly_p :: "string option"
  temperature_unit :: string
  wind_speed_unit :: string
  timezone_p :: string

record AqiParams =
  latitude_q :: jsnum
  longitude_q :: jsnum
  current_q :: string
  timezone_q :: string

section \<open>Requests to the generative model (geminiService)\<close>

text \<open>
  The prompts are fixed templates; a prompt is represented by the values spliced into
  its template, in the template's order. \<open>None\<close> in the insight prompt is the literal
  \<open>N/A\<close>.
\<close>

record ScenePrompt =
  name_sp :: string
  timeOfDay_sp :: string
  description_sp :: string

record InsightPrompt =
  city_ip :: string
  weather_ip :: string
  temp_ip :: jsnum
  unitLabel_ip :: string
  feels_like_ip :: jsnum
  wind_ip :: jsnum
  humidity_ip :: jsnum
  uv_index_ip :: "jsnum option"
  us_aqi_ip :: "jsnum option"
  pm2_5_ip :: "jsnum option"
  userIntent_ip :: string

text \<open>The requests a call issues, in order, are returned beside its result.\<close>

datatype request =
    GeoRequest GeoParams
  | WeatherRequest WeatherParams
  | AqiRequest AqiParams
  | ParseRequest string
  | SceneRequest ScenePrompt
  | InsightRequest InsightPrompt

section \<open>The world outside the program\<close>

text \<open>
  The HTTP endpoints answer a request with an outcome; the clock gives the current hour
  and parses timestamps. \<open>weather_current\<close> and \<open>weather_forecast\<close> are the same URL,
  called by \<open>getCurrentWeather\<close> and \<open>getForecast\<close> with different field lists.
  \<open>getTime s\<close> is \<open>new Date(s).getTime()\<close> and \<open>currentHourStr\<close> is
  \<open>new Date().toISOString().slice(0, 13)\<close>.
\<close>

record upstream =
  geo :: "GeoParams \<Rightarrow> GeoData promise"
  weather_current :: "WeatherParams \<Rightarrow> WeatherData promise"
  weather_forecast :: "WeatherParams \<Rightarrow> ForecastData promise"
  air_quality :: "AqiParams \<Rightarrow> AqiData promise"
  aqiFirst :: bool
  getTime :: "string option \<Rightarrow> jsnum"
  currentHourStr :: string

fun floorNumber :: "jsnum \<Rightarrow> jsnum" where
  "floorNumber (Num r) = Num (of_int \<lfloor>r\<rfloor>)"
| "floorNumber PosInf = PosInf"
| "floorNumber NegInf = NegInf"
| "floorNumber _ = NaN"

text \<open>\<open>Math.floor(x)\<close>: the floor of a double is a double.\<close>

definition js_floor :: "jsnum \<Rightarrow> jsnum" where
  "js_floor x = floorNumber (toNumber x)"

text \<open>A possibly undefined string inside a template literal.\<close>

definition js_template :: "string option \<Rightarrow> string" where
  "js_template s = (case s of None \<Rightarrow> ''undefined'' | Some v \<Rightarrow> v)"

section \<open>weatherService\<close>

text \<open>\<open>new Error(`City '${city}' not found.`)\<close>.\<close>

definition notFound :: "string option \<Rightarrow> js_error" where
  "notFound city = Error (''City '' @ [CHR 0x27] @ js_template city @ [CHR 0x27] @ '' not found.'')"

text \<open>The city handed to the fetches is declared a string; a parsed reply without a
  city makes it \<open>undefined\<close>, which is \<open>None\<close> here.\<close>

definition getCoordinates ::
  "upstream \<Rightarrow> string option \<Rightarrow> Location promise \<times> request list" where
  "getCoordinates up city =
     (let params = \<lparr>name_p = city, count_p = 1, language_p = ''en'', format_p = ''json''\<rparr> in
      (case geo up params of
         Rejected e \<Rightarrow> Rejected e
       | Resolved data \<Rightarrow>
           (case results data of
              None \<Rightarrow> Rejected (notFound city)
            | Some [] \<Rightarrow> Rejected (notFound city)
            | Some (r # rs) \<Rightarrow> Resolved r),
       [GeoRequest params]))"

definition temperatureUnit :: "Unit \<Rightarrow> string" where
  "temperatureUnit unit = (if unit = FAHRENHEIT then ''fahrenheit'' else ''celsius'')"

definition currentWeatherParams :: "Location \<Rightarrow> Unit \<Rightarrow> WeatherParams" where
  "currentWeatherParams location unit =
     \<lparr>latitude_p = latitude location,
      longitude_p = longitude location,
      current_p = Some ''temperature_2m,relative_humidity_2m,apparent_temperature,is_day,precipitation,rain,showers,snowfall,weather_code,cloud_cover,wind_speed_10m,wind_direction_10m,surface_pressure,dew_point_2m'',
      daily_p = Some ''sunrise,sunset,uv_index_max'',
      hourly_p = None,
      temperature_unit = temperatureUnit unit,
      wind_speed_unit = ''ms'',
      timezone_p = ''auto''\<rparr>"

definition aqiParams :: "Location \<Rightarrow> AqiParams" where
  "aqiParams location =
     \<lparr>latitude_q = latitude location,
      longitude_q = longitude location,
      current_q = ''us_aqi,pm10,pm2_5,carbon_monoxide,nitrogen_dioxide,sulphur_dioxide,ozone'',
      timezone_q = ''auto''\<rparr>"

text \<open>The object literal returned by \<open>getCurrentWeather\<close>. Reading a property of a
  missing section throws; the sections are read in the literal's order.\<close>

definition currentWeatherOf ::
  "upstream \<Rightarrow> Location \<Rightarrow> WeatherData \<Rightarrow> AqiData \<Rightarrow> CurrentWeather promise" where
  "currentWeatherOf up location wd ad =
     (case current_w wd of
        None \<Rightarrow> Rejected (TypeError ''weather_code'')
      | Some current \<Rightarrow>
     (case daily_w wd of
        None \<Rightarrow> Rejected (TypeError ''sunrise'')
      | Some daily \<Rightarrow>
     (case current_a ad of
        None \<Rightarrow> Rejected (TypeError ''us_aqi'')
      | Some aqi' \<Rightarrow>
          Resolved
           \<lparr>coord = \<lparr>lon = longitude location, lat = latitude location\<rparr>,
            weather =
              [\<lparr>id_wc = weather_code current,
                main_wc = getDescription (weather_code current),
                description = getDescription (weather_code current),
                icon = getIconCode (weather_code current) (is_day current)\<rparr>],
            base = ''stations'',
            main =
              \<lparr>temp = temperature_2m current,
               feels_like = apparent_temperature current,
               temp_min = temperature_2m current,
               temp_max = temperature_2m current,
               pressure = surface_pressure current,
               humidity = relative_humidity_2m current\<rparr>,
            visibility = Num 10000,
            wind = \<lparr>speed = wind_speed_10m current, deg = wind_direction_10m current\<rparr>,
            clouds = \<lparr>all_c = cloud_cover current\<rparr>,
            dt = time_c current,
            sys =
              \<lparr>type_sys = Num 1,
               id_sys = Num 0,
               country = js_or_str (country_loc location) ''XX'',
               sunrise = js_div (getTime up (js_index_str (sunrise_d daily) 0)) 1000,
               sunset = js_div (getTime up (js_index_str (sunset_d daily) 0)) 1000\<rparr>,
            uv_index = js_index (uv_index_max daily) 0,
            precipitation = precipitation_c current,
            dew_point = dew_point_2m current,
            aqi = Some
              \<lparr>us_aqi = us_aqi_a aqi',
               pm2_5 = pm2_5_a aqi',
               pm10 = pm10_a aqi',
               co = carbon_monoxide aqi',
               no2 = nitrogen_dioxide aqi',
               so2 = sulphur_dioxide aqi',
               o3 = ozone aqi'\<rparr>,
            timezone = utc_offset_seconds wd,
            id_cw = id_loc location,
            name = name_loc location,
            cod = Num 200\<rparr>)))"

text \<open>The catch block of \<open>getCurrentWeather\<close>:
  \<open>throw new Error(error.message || 'Failed to fetch weather data')\<close>.\<close>

definition rethrowWeather :: "js_error \<Rightarrow> js_error" where
  "rethrowWeather e = Error (js_or_str (err_message e) ''Failed to fetch weather data'')"

definition getCurrentWeather ::
  "upstream \<Rightarrow> string option \<Rightarrow> Unit \<Rightarrow> CurrentWeather promise \<times> request list" where
  "getCurrentWeather up city unit =
     (case getCoordinates up city of
        (Rejected e, rq) \<Rightarrow> (Rejected (rethrowWeather e), rq)
      | (Resolved location, rq) \<Rightarrow>
          (let wp = currentWeatherParams location unit;
               ap = aqiParams location;
               rq' = rq @ [WeatherRequest wp, AqiRequest ap] in
           (case promise_all (aqiFirst up) (weather_current up wp) (air_quality up ap) of
              Rejected e \<Rightarrow> (Rejected (rethrowWeather e), rq')
            | Resolved (wd, ad) \<Rightarrow>
                (case currentWeatherOf up location wd ad of
                   Rejected e \<Rightarrow> (Rejected (rethrowWeather e), rq')
                 | Resolved cw \<Rightarrow> (Resolved cw, rq')))))"

definition forecastParams :: "Location \<Rightarrow> Unit \<Rightarrow> WeatherParams" where
  "forecastParams location unit =
     \<lparr>latitude_p = latitude location,
      longitude_p = longitude location,
      current_p = None,
      daily_p = Some ''weather_code,temperature_2m_max,temperature_2m_min,sunrise,sunset,precipitation_probability_max'',
      hourly_p = Some ''temperature_2m,weather_code,is_day,precipitation_probability'',
      temperature_unit = temperatureUnit unit,
      wind_speed_unit = ''ms'',
      timezone_p = ''auto''\<rparr>"

text \<open>The entry pushed for day \<open>i\<close>. \<open>daily.precipitation_probability_max?.[i] || 0\<close>
  is \<open>0\<close> when the array is absent.\<close>

definition forecastItem :: "upstream \<Rightarrow> DailyForecast \<Rightarrow> nat \<Rightarrow> ForecastItem" where
  "forecastItem up daily i =
     (let unixTime = js_add (js_floor (js_div (getTime up (js_index_str (time_d daily) i)) 1000)) (Num 43200) in
      \<lparr>dt_f = unixTime,
       main_f =
         \<lparr>temp = js_div (js_add (js_index (temperature_2m_max daily) i) (js_index (temperature_2m_min daily) i)) 2,
          feels_like = js_index (temperature_2m_max daily) i,
          temp_min = js_index (temperature_2m_min daily) i,
          temp_max = js_index (temperature_2m_max daily) i,
          pressure = Num 1013,
          humidity = Num 50,
          sea_level = Num 1013,
          grnd_level = Num 1013,
          temp_kf = Num 0\<rparr>,
       weather_f =
         [\<lparr>id_wc = js_index (weather_code_d daily) i,
           main_wc = getDescription (js_index (weather_code_d daily) i),
           description = getDescription (js_index (weather_code_d daily) i),
           icon = getIconCode (js_index (weather_code_d daily) i) (Num 1)\<rparr>],
       clouds_f = \<lparr>all_c = Num 0\<rparr>,
       wind_f = \<lparr>speed = Num 0, deg = Num 0, gust = Num 0\<rparr>,
       visibility_f = Num 10000,
       pop_f = js_or_num (case precipitation_probability_max daily of
                            None \<Rightarrow> Undefined | Some ps \<Rightarrow> js_index ps i) 0,
       dt_txt = js_template (js_index_str (time_d daily) i) @ '' 12:00:00''\<rparr>)"

text \<open>\<open>for (let i = 0; i < Math.min(daily.time.length, 5); i++) list.push(...)\<close>,
  entered with \<open>i = 0\<close> and the empty list.\<close>

function dailyLoop ::
  "upstream \<Rightarrow> DailyForecast \<Rightarrow> nat \<Rightarrow> ForecastItem list \<Rightarrow> ForecastItem list" where
  "dailyLoop up daily i list =
     (if i < min (length (time_d daily)) 5
      then dailyLoop up daily (i + 1) (list @ [forecastItem up daily i])
      else list)"
  by pat_completeness auto
termination
  by (relation "measure (\<lambda>(up, daily, i, list). min (length (time_d daily)) 5 - i)") auto

text \<open>The entry pushed for hour \<open>i\<close>.\<close>

definition hourlyItem :: "upstream \<Rightarrow> HourlyForecast \<Rightarrow> nat \<Rightarrow> HourlyItem" where
  "hourlyItem up hourly i =
     \<lparr>dt_h = js_div (getTime up (js_index_str (time_h hourly) i)) 1000,
      temp_h = js_index (temperature_2m_h hourly) i,
      weather_h =
        [\<lparr>id_wc = js_index (weather_code_h hourly) i,
          main_wc = getDescription (js_index (weather_code_h hourly) i),
          description = [],
          icon = getIconCode (js_index (weather_code_h hourly) i) (js_index (is_day_h hourly) i)\<rparr>],
      pop_h = (case precipitation_probability hourly of
                 None \<Rightarrow> Undefined | Some ps \<Rightarrow> js_index ps i)\<rparr>"

text \<open>\<open>for (let i = startIndex; i < startIndex + 24 && i < hourly.time.length; i++)\<close>.\<close>

function hourlyLoop ::
  "upstream \<Rightarrow> HourlyForecast \<Rightarrow> nat \<Rightarrow> nat \<Rightarrow> HourlyItem list \<Rightarrow> HourlyItem list" where
  "hourlyLoop up hourly startIndex i hourlyList =
     (if i < startIndex + 24 \<and> i < length (time_h hourly)
      then hourlyLoop up hourly startIndex (i + 1) (hourlyList @ [hourlyItem up hourly i])
      else hourlyList)"
  by pat_completeness auto
termination
  by (relation "measure (\<lambda>(up, hourly, startIndex, i, hourlyList). length (time_h hourly) - i)") auto

text \<open>\<open>foundIndex\<close> and \<open>startIndex\<close> of \<open>getForecast\<close>: the first timestamp that
  starts with the current hour, or index 0 when there is none.\<close>

definition foundIndex :: "upstream \<Rightarrow> HourlyForecast \<Rightarrow> int" where
  "foundIndex up hourly = findIndex (\<lambda>t. startsWith t (currentHourStr up)) (time_h hourly)"

definition startIndex :: "upstream \<Rightarrow> HourlyForecast \<Rightarrow> nat" where
  "startIndex up hourly = (if foundIndex up hourly \<noteq> -1 then nat (foundIndex up hourly) else 0)"

text \<open>The body of \<open>getForecast\<close> after the response has arrived.\<close>

definition forecastOf ::
  "upstream \<Rightarrow> Location \<Rightarrow> ForecastData \<Rightarrow> ForecastResponse promise" where
  "forecastOf up location fd =
     (case daily_fd fd of
        None \<Rightarrow> Rejected (TypeError ''time'')
      | Some daily \<Rightarrow>
     (let list = dailyLoop up daily 0 [] in
      case hourly_fd fd of
        None \<Rightarrow> Rejected (TypeError ''time'')
      | Some hourly \<Rightarrow>
     (let hourlyList = hourlyLoop up hourly (startIndex up hourly) (startIndex up hourly) [] in
      Resolved
       \<lparr>cod_fr = ''200'',
        message_fr = Num 0,
        cnt = Num (real (length list)),
        list_fr = list,
        hourly_fr = hourlyList,
        city_fr =
          \<lparr>id_city = id_loc location,
           name_city = name_loc location,
           coord_city = \<lparr>lon = longitude location, lat = latitude location\<rparr>,
           country_city = country_loc location,
           population = Num 0,
           timezone_city = utc_offset_seconds_fd fd,
           sunrise_city = Num 0,
           sunset_city = Num 0\<rparr>\<rparr>)))"

text \<open>The catch block of \<open>getForecast\<close>.\<close>

definition rethrowForecast :: "js_error \<Rightarrow> js_error" where
  "rethrowForecast e = Error (js_or_str (err_message e) ''Failed to fetch forecast data'')"

definition getForecast ::
  "upstream \<Rightarrow> string option \<Rightarrow> Unit \<Rightarrow> ForecastResponse promise \<times> request list" where
  "getForecast up city unit =
     (case getCoordinates up city of
        (Rejected e, rq) \<Rightarrow> (Rejected (rethrowForecast e), rq)
      | (Resolved location, rq) \<Rightarrow>
          (let fp = forecastParams location unit;
               rq' = rq @ [WeatherRequest fp] in
           (case weather_forecast up fp of
              Rejected e \<Rightarrow> (Rejected (rethrowForecast e), rq')
            | Resolved fd \<Rightarrow>
                (case forecastOf up location fd of
                   Rejected e \<Rightarrow> (Rejected (rethrowForecast e), rq')
                 | Resolved fr \<Rightarrow> (Resolved fr, rq')))))"

section \<open>geminiService\<close>

text \<open>
  What \<open>JSON.parse\<close> can return and \<open>parseSearchQuery\<close> hands on: \<open>null\<close>, or a
  value with the properties \<open>city\<close> and \<open>intent\<close>, each of them possibly absent (as
  they are for an empty object, a number or an array). The response schema asks for a
  city, but nothing in the program checks the reply against it.
\<close>

record ParsedQuery =
  city_pq :: "string option"
  intent_pq :: "string option"

datatype ParseResult = PNull | PObj ParsedQuery

text \<open>A streamed response: the \<open>text\<close> of each chunk received, and the error that
  ends the iteration, if one does.\<close>

record StreamResult =
  chunks :: "string option list"
  failure :: "js_error option"

text \<open>
  The generative model and the environment. \<open>apiKey\<close> is the truthiness of
  \<open>process.env.API_KEY\<close>. \<open>generateContent_text\<close> answers the parse prompt for a query
  with \<open>response.text\<close>; \<open>JSON_parse\<close> is \<open>None\<close> where \<open>JSON.parse\<close> throws.
  \<open>generateContent_image\<close> answers with \<open>response.candidates?.[0]?.content?.parts || []\<close>,
  each part reduced to its \<open>inlineData.data\<close> when it has one.
\<close>

record gemini =
  apiKey :: bool
  generateContent_text :: "string \<Rightarrow> string option promise"
  JSON_parse :: "string \<Rightarrow> ParseResult option"
  generateContent_image :: "ScenePrompt \<Rightarrow> string option list promise"
  generateContentStream :: "InsightPrompt \<Rightarrow> StreamResult promise"



record SceneResult =
  imageData :: "string option"
  isQuotaError :: bool

text \<open>The catch block of \<open>generateWeatherScene\<close>.\<close>

definition sceneCatch :: "js_error \<Rightarrow> SceneResult" where
  "sceneCatch e =
     (if err_status e = Some ''RESOURCE_EXHAUSTED'' \<or> js_eq (err_code e) 429
         \<or> (case err_message e of None \<Rightarrow> False | Some m \<Rightarrow> includes_str m ''429'')
      then \<lparr>imageData = None, isQuotaError = True\<rparr>
      else \<lparr>imageData = None, isQuotaError = False\<rparr>)"

text \<open>The loop over the parts: the first part that has inline data is returned.\<close>

fun firstInlineData :: "string option list \<Rightarrow> SceneResult" where
  "firstInlineData [] = \<lparr>imageData = None, isQuotaError = False\<rparr>"
| "firstInlineData (None # parts) = firstInlineData parts"
| "firstInlineData (Some d # parts) =
     \<lparr>imageData = Some (''data:image/png;base64,'' @ d), isQuotaError = False\<rparr>"

definition scenePrompt :: "CurrentWeather \<Rightarrow> WeatherCondition \<Rightarrow> ScenePrompt" where
  "scenePrompt w w0 =
     (let timeOfDay = (if includes_str (icon w0) ''n'' then ''night'' else ''day'') in
      \<lparr>name_sp = name w, timeOfDay_sp = timeOfDay, description_sp = description w0\<rparr>)"

definition generateWeatherScene :: "gemini \<Rightarrow> CurrentWeather \<Rightarrow> SceneResult \<times> request list" where
  "generateWeatherScene ai w =
     (if \<not> apiKey ai then (\<lparr>imageData = None, isQuotaError = False\<rparr>, [])
      else
        (case weather w of
           [] \<Rightarrow> (sceneCatch (TypeError ''icon''), [])
         | w0 # ws \<Rightarrow>
             (let prompt = scenePrompt w w0 in
              (case generateContent_image ai prompt of
                 Rejected e \<Rightarrow> sceneCatch e
               | Resolved parts \<Rightarrow> firstInlineData parts,
               [SceneRequest prompt]))))"

definition apologyMessage :: string where
  "apologyMessage = ''I'' @ [CHR 0x27] @ ''m currently receiving too many requests. Please check back in a moment for your smart insights!''"

definition offlineMessage :: string where
  "offlineMessage = ''Gemini is currently offline due to atmospheric interference (API Error).''"

definition missingKeyMessage :: string where
  "missingKeyMessage = ''Gemini API Key is missing. Please add it to your environment variables.''"

text \<open>The catch block of \<open>streamWeatherInsight\<close>: the one chunk it passes to \<open>onChunk\<close>.\<close>

definition insightCatch :: "js_error \<Rightarrow> string" where
  "insightCatch e =
     (if err_status e = Some ''RESOURCE_EXHAUSTED'' \<or> js_eq (err_code e) 429
      then apologyMessage else offlineMessage)"

text \<open>The \<open>for await\<close> loop: \<open>onChunk\<close> is called for each chunk whose text is truthy.\<close>

fun chunkTexts :: "string option list \<Rightarrow> string list" where
  "chunkTexts [] = []"
| "chunkTexts (None # cs) = chunkTexts cs"
| "chunkTexts (Some t # cs) = (if t = [] then chunkTexts cs else t # chunkTexts cs)"

definition insightPrompt :: "CurrentWeather \<Rightarrow> WeatherCondition \<Rightarrow> Unit \<Rightarrow> string option \<Rightarrow> InsightPrompt" where
  "insightPrompt w w0 unit userIntent =
     \<lparr>city_ip = name w,
      weather_ip = description w0,
      temp_ip = temp (main w),
      unitLabel_ip = (if unit = CELSIUS then ''Celsius'' else ''Fahrenheit''),
      feels_like_ip = feels_like (main w),
      wind_ip = speed (wind w),
      humidity_ip = humidity (main w),
      uv_index_ip = (if truthy (uv_index w) then Some (uv_index w) else None),
      us_aqi_ip = (case aqi w of None \<Rightarrow> None | Some a \<Rightarrow> Some (us_aqi a)),
      pm2_5_ip = (case aqi w of None \<Rightarrow> None | Some a \<Rightarrow> Some (pm2_5 a)),
      userIntent_ip = js_or_str userIntent ''General update''\<rparr>"

text \<open>
  \<open>streamWeatherInsight\<close> returns nothing; what it does is call \<open>onChunk\<close>. The model
  returns the arguments of those calls, in order.
\<close>

definition streamWeatherInsight ::
  "gemini \<Rightarrow> CurrentWeather \<Rightarrow> Unit \<Rightarrow> string option \<Rightarrow> string list \<times> request list" where
  "streamWeatherInsight ai w unit userIntent =
     (if \<not> apiKey ai then ([missingKeyMessage], [])
      else
        (case weather w of
           [] \<Rightarrow> ([insightCatch (TypeError ''description'')], [])
         | w0 # ws \<Rightarrow>
             (let prompt = insightPrompt w w0 unit userIntent in
              (case generateContentStream ai prompt of
                 Rejected e \<Rightarrow> [insightCatch e]
               | Resolved streamResult \<Rightarrow>
                   (case failure streamResult of
                      None \<Rightarrow> chunkTexts (chunks streamResult)
                    | Some e \<Rightarrow> chunkTexts (chunks streamResult) @ [insightCatch e]),
               [InsightRequest prompt]))))"

section \<open>App\<close>

record AppState =
  city :: "string option"
  currentWeather :: "CurrentWeather option"
  forecast :: "ForecastResponse option"
  unit_s :: Unit
  loading :: bool
  error :: "string option"
  searchQuery :: string
  insight :: string
  loadingInsight :: bool
  bgImage :: "string option"
  loadingBg :: bool
  bgQuotaError :: bool
  retryCountdown :: int
  userIntent :: string
  isListening :: bool
  isSpeaking :: bool

text \<open>Everything outside the component. \<open>forecastFirst\<close> says that \<open>getForecast\<close>
  settles before \<open>getCurrentWeather\<close> inside \<open>Promise.all\<close>.\<close>

record world =
  weatherApi :: upstream
  genai :: gemini
  forecastFirst :: bool

text \<open>The timer effect: one second after a render with a positive countdown, the
  countdown is decremented.\<close>

definition tick :: "AppState \<Rightarrow> AppState" where
  "tick st = (if retryCountdown st > 0 then st\<lparr>retryCountdown := retryCountdown st - 1\<rparr> else st)"

fun ticks :: "nat \<Rightarrow> AppState \<Rightarrow> AppState" where
  "ticks 0 st = st"
| "ticks (Suc n) st = ticks n (tick st)"

text \<open>What both callers do with the result of \<open>generateWeatherScene\<close>; only the retry
  resets the countdown on success.\<close>

definition applyScene :: "bool \<Rightarrow> SceneResult \<Rightarrow> AppState \<Rightarrow> AppState" where
  "applyScene isRetry result st =
     (case imageData result of
        Some img \<Rightarrow>
          (if img \<noteq> [] then
             (if isRetry then st\<lparr>bgImage := Some img, bgQuotaError := False, retryCountdown := 0\<rparr>
              else st\<lparr>bgImage := Some img, bgQuotaError := False\<rparr>)
           else if isQuotaError result then st\<lparr>bgQuotaError := True, retryCountdown := 86400\<rparr>
           else st)
      | None \<Rightarrow>
          (if isQuotaError result then st\<lparr>bgQuotaError := True, retryCountdown := 86400\<rparr>
           else st))"

text \<open>
  \<open>fetchData\<close>, run to the point where the insight stream and the scene generation it
  starts have settled. The two write different fields, so their order does not matter.
\<close>

definition fetchData ::
  "world \<Rightarrow> AppState \<Rightarrow> string option \<Rightarrow> string option \<Rightarrow> AppState \<times> request list" where
  "fetchData wd st targetCity intent =
     (let st1 = st\<lparr>loading := True, error := None, insight := [], bgImage := None,
                   bgQuotaError := False, retryCountdown := 0, isSpeaking := False\<rparr>;
          (weatherResult, rq1) = getCurrentWeather (weatherApi wd) targetCity (unit_s st);
          (forecastResult, rq2) = getForecast (weatherApi wd) targetCity (unit_s st) in
      (case promise_all (forecastFirst wd) weatherResult forecastResult of
         Rejected err \<Rightarrow>
           (st1\<lparr>error := Some (js_or_str (err_message err)
                                 ''Could not find weather data. Please try another city.''),
                currentWeather := None, forecast := None, loading := False\<rparr>,
            rq1 @ rq2)
       | Resolved (weatherData, forecastData) \<Rightarrow>
           (let st2 = st1\<lparr>currentWeather := Some weatherData, forecast := Some forecastData,
                          city := targetCity\<rparr>;
                (texts, rq3) = streamWeatherInsight (genai wd) weatherData (unit_s st) intent;
                st3 = st2\<lparr>insight := concat texts, loadingInsight := False\<rparr>;
                (result, rq4) = generateWeatherScene (genai wd) weatherData;
                st4 = (applyScene False result st3)\<lparr>loadingBg := False\<rparr> in
            (st4\<lparr>loading := False\<rparr>, rq1 @ rq2 @ rq3 @ rq4))))"

definition retryBackgroundGeneration :: "world \<Rightarrow> AppState \<Rightarrow> AppState \<times> request list" where
  "retryBackgroundGeneration wd st =
     (case currentWeather st of
        None \<Rightarrow> (st, [])
      | Some cw \<Rightarrow>
          if retryCountdown st > 0 then (st, [])
          else
            (let (result, rq) = generateWeatherScene (genai wd) cw in
             ((applyScene True result (st\<lparr>loadingBg := True\<rparr>))\<lparr>loadingBg := False\<rparr>, rq)))"



text \<open>The initial values of the component's state hooks.\<close>

definition initialState :: AppState where
  "initialState =
     \<lparr>city = Some ''New Delhi'', currentWeather = None, forecast = None, unit_s = CELSIUS,
      loading = False, error = None, searchQuery = [], insight = [], loadingInsight = False,
      bgImage = None, loadingBg = False, bgQuotaError = False, retryCountdown = 0,
      userIntent = [], isListening = False, isSpeaking = False\<rparr>"

section \<open>The specification's vocabulary\<close>

text \<open>
  The fixed enumeration of icon codes as the specification lists it: the families clear
  (01), mainly clear (02), partly cloudy (03), overcast (04), fog (50), drizzle and rain
  showers (09), rain (10), snow (13) and thunderstorm (11), each with a day and a night
  variant.
\<close>

definition iconEnumeration :: "string list" where
  "iconEnumeration =
     [''01d'', ''01n'', ''02d'', ''02n'', ''03d'', ''03n'', ''04d'', ''04n'',
      ''50d'', ''50n'', ''09d'', ''09n'', ''10d'', ''10n'', ''13d'', ''13n'',
      ''11d'', ''11n'']"

text \<open>The codes that belong to a documented bucket of the icon table.\<close>

fun documentedBucket :: "jsnum \<Rightarrow> bool" where
  "documentedBucket (Num r) =
     (r = 0 \<or> r = 1 \<or> r = 2 \<or> r = 3 \<or> r = 45 \<or> r = 48
      \<or> (51 \<le> r \<and> r \<le> 57) \<or> (61 \<le> r \<and> r \<le> 67) \<or> (71 \<le> r \<and> r \<le> 77)
      \<or> (80 \<le> r \<and> r \<le> 82) \<or> (85 \<le> r \<and> r \<le> 86) \<or> (95 \<le> r \<and> r \<le> 99))"
| "documentedBucket x = False"

text \<open>
  Quota exhaustion, as the source delimits it under its comment on handling quota
  exhaustion: the thrown error has the resource-exhausted status, or the code 429, or a
  message that mentions 429.
\<close>

definition sceneQuotaSignal :: "js_error \<Rightarrow> bool" where
  "sceneQuotaSignal e =
     (err_status e = Some ''RESOURCE_EXHAUSTED'' \<or> err_code e = Num 429
      \<or> (case err_message e of None \<Rightarrow> False | Some m \<Rightarrow> includes_str m ''429''))"





section \<open>Sample payloads\<close>

definition sampleLocation :: Location where
  "sampleLocation =
     \<lparr>latitude = Num 48.85, longitude = Num 2.35, name_loc = ''Paris'',
      country_loc = Some ''FR'', id_loc = Num 2988507\<rparr>"

definition sampleCurrent :: CurrentData where
  "sampleCurrent =
     \<lparr>time_c = ''2024-05-01T10:00'', temperature_2m = Num 22.5, relative_humidity_2m = Num 60,
      apparent_temperature = Num 23, is_day = Num 1, precipitation_c = Num 0.2,
      weather_code = Num 61, cloud_cover = Num 75, wind_speed_10m = Num 3.4,
      wind_direction_10m = Num 180, surface_pressure = Num 1009, dew_point_2m = Num 14\<rparr>"

definition sampleWeatherData :: WeatherData where
  "sampleWeatherData =
     \<lparr>current_w = Some sampleCurrent,
      daily_w = Some \<lparr>sunrise_d = [''2024-05-01T06:30''], sunset_d = [''2024-05-01T21:00''],
                      uv_index_max = [Num 6]\<rparr>,
      utc_offset_seconds = Num 7200\<rparr>"

definition sampleAqiData :: AqiData where
  "sampleAqiData =
     \<lparr>current_a = Some \<lparr>us_aqi_a = Num 42, pm10_a = Num 12, pm2_5_a = Num 8,
                        carbon_monoxide = Num 190, nitrogen_dioxide = Num 11,
                        sulphur_dioxide = Num 2, ozone = Num 70\<rparr>\<rparr>"

definition sampleDaily :: DailyForecast where
  "sampleDaily =
     \<lparr>time_d = [''2024-05-01'', ''2024-05-02''],
      weather_code_d = [Num 61, Num 3],
      temperature_2m_max = [Num 24, Num 20],
      temperature_2m_min = [Num 14, Num 11],
      precipitation_probability_max = Some [Num 80, Num 10]\<rparr>"

text \<open>A day whose maximum and minimum are the doubles nearest to 0.2 and 0.1.\<close>

definition roundingDaily :: DailyForecast where
  "roundingDaily =
     \<lparr>time_d = [''2024-05-01''],
      weather_code_d = [Num 0],
      temperature_2m_max = [Num (3602879701896397 / 2 ^ 54)],
      temperature_2m_min = [Num (3602879701896397 / 2 ^ 55)],
      precipitation_probability_max = None\<rparr>"

definition sampleHourly :: HourlyForecast where
  "sampleHourly =
     \<lparr>time_h = [''2024-05-01T09:00'', ''2024-05-01T10:00'', ''2024-05-01T11:00''],
      temperature_2m_h = [Num 20, Num 22.5, Num 23],
      weather_code_h = [Num 3, Num 61, Num 61],
      is_day_h = [Num 1, Num 1, Num 1],
      precipitation_probability = Some [Num 10, Num 80, Num 70]\<rparr>"

definition sampleForecastData :: ForecastData where
  "sampleForecastData =
     \<lparr>daily_fd = Some sampleDaily, hourly_fd = Some sampleHourly,
      utc_offset_seconds_fd = Num 7200\<rparr>"

text \<open>An upstream that knows one city.\<close>

definition sampleUpstream :: upstream where
  "sampleUpstream =
     \<lparr>geo = (\<lambda>p. Resolved \<lparr>results = (if name_p p = Some ''Paris'' then Some [sampleLocation] else None)\<rparr>),
      weather_current = (\<lambda>p. Resolved sampleWeatherData),
      weather_forecast = (\<lambda>p. Resolved sampleForecastData),
      air_quality = (\<lambda>p. Resolved sampleAqiData),
      aqiFirst = False,
      getTime = (\<lambda>s. Num 1714557600000),
      currentHourStr = ''2024-05-01T10''\<rparr>"

text \<open>The same upstream seen when the clock's hour is not in the hourly list: the
  clock is read in UTC, the timestamps are local to the city.\<close>

definition staleUpstream :: upstream where
  "staleUpstream = sampleUpstream\<lparr>currentHourStr := ''2024-04-30T23''\<rparr>"




definition quotaError :: js_error where
  "quotaError = \<lparr>err_status = Some ''RESOURCE_EXHAUSTED'', err_code = Num 429,
                 err_message = Some ''quota exceeded''\<rparr>"

text \<open>A generative model whose quota is exhausted.\<close>

definition exhaustedGemini :: gemini where
  "exhaustedGemini =
     \<lparr>apiKey = True,
      generateContent_text = (\<lambda>q. Rejected quotaError),
      JSON_parse = (\<lambda>t. None),
      generateContent_image = (\<lambda>p. Rejected quotaError),
      generateContentStream = (\<lambda>p. Rejected quotaError)\<rparr>"

text \<open>A generative model that cannot be reached.\<close>

definition offlineGemini :: gemini where
  "offlineGemini =
     \<lparr>apiKey = True,
      generateContent_text = (\<lambda>q. Rejected (Error ''Failed to fetch'')),
      JSON_parse = (\<lambda>t. None),
      generateContent_image = (\<lambda>p. Rejected (Error ''Failed to fetch'')),
      generateContentStream = (\<lambda>p. Rejected (Error ''Failed to fetch''))\<rparr>"

text \<open>A generative model that answers every request with a 429 reported in the
  error message only.\<close>

definition busyGemini :: gemini where
  "busyGemini =
     \<lparr>apiKey = True,
      generateContent_text = (\<lambda>q. Rejected (Error ''got status: 429 Too Many Requests'')),
      JSON_parse = (\<lambda>t. None),
      generateContent_image = (\<lambda>p. Rejected (Error ''got status: 429 Too Many Requests'')),
      generateContentStream = (\<lambda>p. Rejected (Error ''got status: 429 Too Many Requests''))\<rparr>"


text \<open>The snapshot that the sample upstream yields for Paris.\<close>

definition sampleSnapshot :: CurrentWeather where
  "sampleSnapshot =
     \<lparr>coord = \<lparr>lon = Num 2.35, lat = Num 48.85\<rparr>,
      weather = [\<lparr>id_wc = Num 61, main_wc = ''Slight rain'', description = ''Slight rain'',
                  icon = ''10d''\<rparr>],
      base = ''stations'',
      main = \<lparr>temp = Num 22.5, feels_like = Num 23, temp_min = Num 22.5, temp_max = Num 22.5,
               pressure = Num 1009, humidity = Num 60\<rparr>,
      visibility = Num 10000,
      wind = \<lparr>speed = Num 3.4, deg = Num 180\<rparr>,
      clouds = \<lparr>all_c = Num 75\<rparr>,
      dt = ''2024-05-01T10:00'',
      sys = \<lparr>type_sys = Num 1, id_sys = Num 0, country = ''FR'',
              sunrise = Num 1714557600, sunset = Num 1714557600\<rparr>,
      uv_index = Num 6,
      precipitation = Num 0.2,
      dew_point = Num 14,
      aqi = Some \<lparr>us_aqi = Num 42, pm2_5 = Num 8, pm10 = Num 12, co = Num 190, no2 = Num 11,
                   so2 = Num 2, o3 = Num 70\<rparr>,
      timezone = Num 7200,
      id_cw = Num 2988507,
      name = ''Paris'',
      cod = Num 200\<rparr>"

definition sampleWorld :: world where
  "sampleWorld = \<lparr>weatherApi = sampleUpstream, genai = exhaustedGemini, forecastFirst = False\<rparr>"

section \<open>Iteration and table lookups in closed form\<close>

declare dailyLoop.simps [simp del] hourlyLoop.simps [simp del]

declare binaryExponent.simps [simp del]

text \<open>The binary exponent is the floor of the logarithm; the double nearest to \<open>x\<close>,
  once the binary exponent of \<open>x\<close> is known.\<close>

lemma binaryExponent_log: "0 < x \<Longrightarrow> binaryExponent x = \<lfloor>log 2 x\<rfloor>"
proof (induction x rule: binaryExponent.induct)
  case (1 x)
  show ?case
  proof (cases "2 \<le> x")
    case True
    then have "log 2 (x / 2) = log 2 x - 1"
      by (simp add: log_divide)
    with 1 True show ?thesis
      by (subst binaryExponent.simps) simp
  next
    case False
    show ?thesis
    proof (cases "x < 1")
      case True
      then have "log 2 (2 * x) = log 2 x + 1"
        using 1(3) by (simp add: log_mult)
      with 1 True False show ?thesis
        by (subst binaryExponent.simps) simp
    next
      case ge: False
      with False 1(3) have "\<lfloor>log 2 x\<rfloor> = 0"
        by (simp add: floor_log_eq_powr_iff)
      with False ge 1(3) show ?thesis
        by (subst binaryExponent.simps) simp
    qed
  qed
qed

lemma pow2_powr: "pow2 e = 2 powr (of_int e)"
proof (cases "0 \<le> e")
  case True
  then have "real_of_int e = real (nat e)" by simp
  then have "(2::real) powr (of_int e) = 2 ^ nat e"
    by (simp only: powr_realpow zero_less_numeral)
  with True show ?thesis by (simp add: pow2_def)
next
  case False
  then have "real_of_int e = - real (nat (- e))" by simp
  then have "(2::real) powr (of_int e) = 1 / 2 ^ nat (- e)"
    by (simp only: powr_minus_divide powr_realpow zero_less_numeral)
  with False show ?thesis by (simp add: pow2_def)
qed

lemma fl_normal:
  assumes "- 1022 \<le> e" "2 powr (of_int e) \<le> \<bar>x\<bar>" "\<bar>x\<bar> < 2 powr (of_int e + 1)"
  shows "fl x =
     (let ulp = pow2 (e - 52);
          y = of_int (roundHalfEven (\<bar>x\<bar> / ulp)) * ulp
      in if 2 ^ 1024 \<le> y then (if 0 < x then PosInf else NegInf)
         else Num (if 0 < x then y else - y))"
proof -
  have pos: "0 < \<bar>x\<bar>"
    using assms(2) by (smt (verit) powr_gt_zero)
  then have nz: "x \<noteq> 0" by simp
  have "\<lfloor>log 2 \<bar>x\<bar>\<rfloor> = e"
    using assms(2,3) pos by (simp add: floor_log_eq_powr_iff)
  with pos have "binaryExponent \<bar>x\<bar> = e"
    by (simp add: binaryExponent_log)
  with assms(1) have "max (binaryExponent \<bar>x\<bar>) (- 1022) = e" by simp
  then show ?thesis
    using nz by (simp add: fl_def Let_def)
qed

lemma toNumber_fl: "toNumber (fl x) = fl x"
  by (simp add: fl_def Let_def)

lemma fl_38: "fl 38 = Num 38"
  using fl_normal[of 5 38] by (simp add: roundHalfEven_def Let_def pow2_def)

lemma fl_19: "fl 19 = Num 19"
  using fl_normal[of 4 19] by (simp add: roundHalfEven_def Let_def pow2_def)

lemma fl_seconds: "fl (1714557600000 / 1000) = Num 1714557600"
  using fl_normal[of 30 "1714557600000 / 1000"] by (simp add: roundHalfEven_def Let_def pow2_def)

lemma fl_sum_tenths:
  "fl (3602879701896397 / 2 ^ 54 + 3602879701896397 / 2 ^ 55) = Num (5404319552844596 / 2 ^ 54)"
  using fl_normal[of "- 2" "3602879701896397 / 2 ^ 54 + 3602879701896397 / 2 ^ 55"]
  by (simp add: roundHalfEven_def Let_def pow2_def powr_neg_numeral)

lemma fl_half_sum_tenths:
  "fl (5404319552844596 / 2 ^ 54 / 2) = Num (5404319552844596 / 2 ^ 55)"
  using fl_normal[of "- 3" "5404319552844596 / 2 ^ 54 / 2"]
  by (simp add: roundHalfEven_def Let_def pow2_def powr_neg_numeral)

lemma dailyLoop_eq:
  "dailyLoop u d i acc = acc @ map (forecastItem u d) [i ..< min (length (time_d d)) 5]"
proof (induction u d i acc rule: dailyLoop.induct)
  case (1 u daily i list)
  define m where "m = min (length (time_d daily)) 5"
  show ?case
  proof (cases "i < m")
    case True
    then have "[i ..< m] = i # [i + 1 ..< m]"
      by (simp add: upt_conv_Cons)
    moreover have "dailyLoop u daily (i + 1) (list @ [forecastItem u daily i])
                     = (list @ [forecastItem u daily i]) @ map (forecastItem u daily) [i + 1 ..< m]"
      using True 1 unfolding m_def by blast
    moreover have "dailyLoop u daily i list = dailyLoop u daily (i + 1) (list @ [forecastItem u daily i])"
      using True unfolding m_def by (subst dailyLoop.simps) (simp only: if_True)
    ultimately show ?thesis unfolding m_def by simp
  next
    case False
    then have "[i ..< m] = []" by simp
    moreover have "dailyLoop u daily i list = list"
      using False unfolding m_def by (subst dailyLoop.simps) (simp only: if_False)
    ultimately show ?thesis unfolding m_def by simp
  qed
qed

lemma hourlyLoop_eq:
  "hourlyLoop u h s i acc = acc @ map (hourlyItem u h) [i ..< min (s + 24) (length (time_h h))]"
proof (induction u h s i acc rule: hourlyLoop.induct)
  case (1 u hourly s i hourlyList)
  define m where "m = min (s + 24) (length (time_h hourly))"
  have guard: "(i < s + 24 \<and> i < length (time_h hourly)) = (i < m)"
    unfolding m_def by simp
  show ?case
  proof (cases "i < m")
    case True
    then have "[i ..< m] = i # [i + 1 ..< m]"
      by (simp add: upt_conv_Cons)
    moreover have "hourlyLoop u hourly s (i + 1) (hourlyList @ [hourlyItem u hourly i])
                     = (hourlyList @ [hourlyItem u hourly i]) @ map (hourlyItem u hourly) [i + 1 ..< m]"
      using True 1 guard unfolding m_def by blast
    moreover have "hourlyLoop u hourly s i hourlyList
                     = hourlyLoop u hourly s (i + 1) (hourlyList @ [hourlyItem u hourly i])"
      using True by (subst hourlyLoop.simps) (simp only: guard if_True)
    ultimately show ?thesis unfolding m_def by simp
  next
    case False
    then have "[i ..< m] = []" by simp
    moreover have "hourlyLoop u hourly s i hourlyList = hourlyList"
      using False by (subst hourlyLoop.simps) (simp only: guard if_False)
    ultimately show ?thesis unfolding m_def by simp
  qed
qed

lemma findIndexFrom_none:
  "0 \<le> i \<Longrightarrow> (findIndexFrom p xs i = -1) = (\<forall>x\<in>set xs. \<not> p x)"
  by (induction xs arbitrary: i) auto

lemma findIndexFrom_found:
  "0 \<le> i \<Longrightarrow> findIndexFrom p xs i \<noteq> -1 \<Longrightarrow>
     i \<le> findIndexFrom p xs i \<and> nat (findIndexFrom p xs i - i) < length xs
     \<and> p (xs ! nat (findIndexFrom p xs i - i))
     \<and> (\<forall>j < nat (findIndexFrom p xs i - i). \<not> p (xs ! j))"
proof (induction xs arbitrary: i)
  case Nil
  then show ?case by simp
next
  case (Cons x xs)
  show ?case
  proof (cases "p x")
    case True
    then show ?thesis by simp
  next
    case False
    with Cons.prems have ne: "findIndexFrom p xs (i + 1) \<noteq> -1" by simp
    from Cons.prems have "0 \<le> i + 1" by simp
    from Cons.IH[OF this ne] have ih:
      "i + 1 \<le> findIndexFrom p xs (i + 1)"
      "nat (findIndexFrom p xs (i + 1) - (i + 1)) < length xs"
      "p (xs ! nat (findIndexFrom p xs (i + 1) - (i + 1)))"
      "\<forall>j < nat (findIndexFrom p xs (i + 1) - (i + 1)). \<not> p (xs ! j)"
      by simp_all
    have eq: "findIndexFrom p (x # xs) i = findIndexFrom p xs (i + 1)"
      using False by simp
    have n: "nat (findIndexFrom p xs (i + 1) - i) = Suc (nat (findIndexFrom p xs (i + 1) - (i + 1)))"
      using ih(1) by simp
    show ?thesis
      unfolding eq n using ih False
      by (auto simp: less_Suc_eq_0_disj)
  qed
qed

lemma getIconCode_enum: "getIconCode w d \<in> set iconEnumeration"
  by (simp add: getIconCode_def iconEnumeration_def Let_def)

lemma getIconCode_fallback:
  "\<not> documentedBucket w \<Longrightarrow> getIconCode w d = ''01'' @ (if truthy d then ''d'' else ''n'')"
  by (cases w) (auto simp: getIconCode_def Let_def)

lemma codes_len: "length codes = 28"
  by (simp add: codes_def)

lemma codes_distinct: "distinct (map fst codes)"
  by (simp add: codes_def)

lemma getDescription_unknown: "codes_lookup w = None \<Longrightarrow> getDescription w = ''Unknown''"
  by (simp add: getDescription_def js_or_str_def)

lemma codes_nonempty: "(r, s) \<in> set codes \<Longrightarrow> s \<noteq> []"
  by (auto simp: codes_def)

lemma getDescription_entry: "(r, s) \<in> set codes \<Longrightarrow> getDescription (Num r) = s"
  using codes_distinct codes_nonempty[of r s]
  by (simp add: getDescription_def js_or_str_def)

section \<open>What a resolved fetch was built from\<close>

lemma promise_all_Resolved:
  "promise_all b p q = Resolved (x, y) \<Longrightarrow> p = Resolved x \<and> q = Resolved y"
  by (cases p; cases q) auto

lemma promise_all_Rejected:
  "promise_all b p q = Rejected e \<Longrightarrow> p = Rejected e \<or> q = Rejected e"
  by (cases p; cases q) (auto split: if_splits)

lemma getCurrentWeather_Resolved:
  assumes "fst (getCurrentWeather u cty unit) = Resolved cw"
  shows "\<exists>location wd ad. fst (getCoordinates u cty) = Resolved location
           \<and> weather_current u (currentWeatherParams location unit) = Resolved wd
           \<and> air_quality u (aqiParams location) = Resolved ad
           \<and> currentWeatherOf u location wd ad = Resolved cw"
  using assms
  by (auto simp: getCurrentWeather_def Let_def split: prod.splits promise.splits
           dest: promise_all_Resolved)

lemma currentWeatherOf_Resolved:
  assumes "currentWeatherOf u location wd ad = Resolved cw"
  shows "\<exists>c. current_w wd = Some c
           \<and> weather cw = [\<lparr>id_wc = weather_code c, main_wc = getDescription (weather_code c),
                             description = getDescription (weather_code c),
                             icon = getIconCode (weather_code c) (is_day c)\<rparr>]
           \<and> temp (main cw) = temperature_2m c
           \<and> temp_min (main cw) = temperature_2m c
           \<and> temp_max (main cw) = temperature_2m c
           \<and> visibility cw = Num 10000
           \<and> speed (wind cw) = wind_speed_10m c"
  using assms
  by (auto simp: currentWeatherOf_def split: option.splits)

lemma getForecast_Resolved:
  assumes "fst (getForecast u cty unit) = Resolved fr"
  shows "\<exists>location fd. fst (getCoordinates u cty) = Resolved location
           \<and> weather_forecast u (forecastParams location unit) = Resolved fd
           \<and> forecastOf u location fd = Resolved fr"
  using assms
  by (auto simp: getForecast_def Let_def split: prod.splits promise.splits)

lemma forecastOf_Resolved:
  assumes "forecastOf u location fd = Resolved fr"
  shows "\<exists>daily hourly. daily_fd fd = Some daily \<and> hourly_fd fd = Some hourly
           \<and> list_fr fr = map (forecastItem u daily) [0 ..< min (length (time_d daily)) 5]
           \<and> hourly_fr fr = map (hourlyItem u hourly)
                 [startIndex u hourly ..< min (startIndex u hourly + 24) (length (time_h hourly))]"
  using assms
  by (auto simp: forecastOf_def Let_def dailyLoop_eq hourlyLoop_eq split: option.splits)

lemma sampleUpstream_fields:
  "geo sampleUpstream p = Resolved \<lparr>results = (if name_p p = Some ''Paris'' then Some [sampleLocation] else None)\<rparr>"
  "weather_current sampleUpstream wp = Resolved sampleWeatherData"
  "weather_forecast sampleUpstream wp = Resolved sampleForecastData"
  "air_quality sampleUpstream ap = Resolved sampleAqiData"
  "aqiFirst sampleUpstream = False"
  "getTime sampleUpstream s = Num 1714557600000"
  "currentHourStr sampleUpstream = ''2024-05-01T10''"
  by (simp_all add: sampleUpstream_def)

lemma sample_getCoordinates:
  "getCoordinates sampleUpstream (Some ''Paris'')
     = (Resolved sampleLocation,
        [GeoRequest \<lparr>name_p = Some ''Paris'', count_p = 1, language_p = ''en'', format_p = ''json''\<rparr>])"
  by (simp add: getCoordinates_def sampleUpstream_fields)

lemma sample_currentWeather:
  "\<exists>cw. fst (getCurrentWeather sampleUpstream (Some ''Paris'') unit) = Resolved cw"
  by (simp add: getCurrentWeather_def sample_getCoordinates Let_def currentWeatherOf_def
        sampleUpstream_fields sampleWeatherData_def sampleAqiData_def)

lemma sample_forecast:
  "\<exists>fr. fst (getForecast sampleUpstream (Some ''Paris'') unit) = Resolved fr"
  by (simp add: getForecast_def sample_getCoordinates Let_def forecastOf_def
        sampleUpstream_fields sampleForecastData_def)

lemma startIndex_found:
  assumes "\<exists>t\<in>set (time_h h). startsWith t (currentHourStr u)"
  shows "startIndex u h < length (time_h h)
         \<and> startsWith (time_h h ! startIndex u h) (currentHourStr u)
         \<and> (\<forall>j < startIndex u h. \<not> startsWith (time_h h ! j) (currentHourStr u))"
proof -
  let ?p = "\<lambda>t. startsWith t (currentHourStr u)"
  have ne: "findIndexFrom ?p (time_h h) 0 \<noteq> -1"
    using assms findIndexFrom_none[of 0 ?p "time_h h"] by auto
  from findIndexFrom_found[OF _ ne] show ?thesis
    using ne by (simp add: startIndex_def foundIndex_def findIndex_def)
qed

lemma startIndex_none:
  assumes "\<forall>t\<in>set (time_h h). \<not> startsWith t (currentHourStr u)"
  shows "startIndex u h = 0"
  using assms findIndexFrom_none[of 0 "\<lambda>t. startsWith t (currentHourStr u)" "time_h h"]
  by (simp add: startIndex_def foundIndex_def findIndex_def)

lemma getCoordinates_requests:
  "snd (getCoordinates u cty)
     = [GeoRequest \<lparr>name_p = cty, count_p = 1, language_p = ''en'', format_p = ''json''\<rparr>]"
  by (simp add: getCoordinates_def Let_def)

lemma getCurrentWeather_requests:
  "WeatherRequest p \<in> set (snd (getCurrentWeather u cty unit)) \<Longrightarrow>
     \<exists>location. p = currentWeatherParams location unit"
  using getCoordinates_requests[of u cty]
  by (auto simp: getCurrentWeather_def Let_def split: prod.splits promise.splits)

lemma getForecast_requests:
  "WeatherRequest p \<in> set (snd (getForecast u cty unit)) \<Longrightarrow>
     \<exists>location. p = forecastParams location unit"
  using getCoordinates_requests[of u cty]
  by (auto simp: getForecast_def Let_def split: prod.splits promise.splits)

lemma sample_forecast_parts:
  "fst (getCoordinates sampleUpstream (Some ''Paris'')) = Resolved sampleLocation"
  "weather_forecast sampleUpstream (forecastParams sampleLocation unit) = Resolved sampleForecastData"
  "weather_current sampleUpstream (currentWeatherParams sampleLocation unit) = Resolved sampleWeatherData"
  "hourly_fd sampleForecastData = Some sampleHourly"
  "daily_fd sampleForecastData = Some sampleDaily"
  "current_w sampleWeatherData = Some sampleCurrent"
  by (simp_all add: sample_getCoordinates sampleUpstream_fields sampleForecastData_def
        sampleWeatherData_def)

lemma sample_startIndex: "startIndex sampleUpstream sampleHourly = 1"
  by (simp add: startIndex_def foundIndex_def findIndex_def sampleHourly_def sampleUpstream_fields)

section \<open>The icon code (C1)\<close>

text \<open>
  Claim C1, as the code has it. For every weather code and is-day flag (numbers, \<open>NaN\<close>
  and \<open>undefined\<close> alike) the icon code is a member of the fixed enumeration, and a
  code outside every documented bucket gets the clear-sky icon \<open>01\<close> with the suffix
  of the is-day flag: \<open>01d\<close> when the flag is truthy and \<open>01n\<close> otherwise.
\<close>

theorem iconCode_enumeration:
  "getIconCode wmoCode isDay \<in> set iconEnumeration
   \<and> (\<not> documentedBucket wmoCode \<longrightarrow>
        getIconCode wmoCode isDay = ''01'' @ (if truthy isDay then ''d'' else ''n''))"
  using getIconCode_enum getIconCode_fallback by blast

theorem iconCode_enumeration_witness:
  "\<not> documentedBucket (Num 4) \<and> getIconCode (Num 4) (Num 0) = ''01n''
   \<and> getIconCode (Num 4) (Num 0) \<in> set iconEnumeration"
  using iconCode_enumeration[of "Num 4" "Num 0"] by (simp add: iconEnumeration_def)

text \<open>
  The claim as written promises the clear-day icon for every code outside the buckets.
  At night it is the clear-night icon: code 4 belongs to no bucket, and with is-day 0
  the icon is \<open>01n\<close>.
\<close>

theorem iconCode_fallback_night:
  "\<not> (\<not> documentedBucket (Num 4) \<longrightarrow> getIconCode (Num 4) (Num 0) = ''01d'')"
  by (simp add: getIconCode_def)

section \<open>The hourly window (C2)\<close>

text \<open>
  Claim C2, as the code has it. For a forecast fetch that resolves, the hourly output
  has at most 24 entries; entry \<open>k\<close> is built from upstream hour \<open>startIndex + k\<close>,
  so nothing before the start index is included; the output stops early, with
  \<open>length time - startIndex\<close> entries, when fewer than 24 hours remain. The start
  index is the first upstream timestamp that starts with the current hour when there is
  one, and 0 when there is none.
\<close>

theorem hourly_window:
  assumes "fst (getForecast u cty unit) = Resolved fr"
    and "fst (getCoordinates u cty) = Resolved location"
    and "weather_forecast u (forecastParams location unit) = Resolved fd"
    and "hourly_fd fd = Some hourly"
  shows "length (hourly_fr fr) \<le> 24
     \<and> length (hourly_fr fr) = min 24 (length (time_h hourly) - startIndex u hourly)
     \<and> (\<forall>k < length (hourly_fr fr).
           hourly_fr fr ! k = hourlyItem u hourly (startIndex u hourly + k))
     \<and> ((\<exists>t\<in>set (time_h hourly). startsWith t (currentHourStr u)) \<longrightarrow>
           startIndex u hourly < length (time_h hourly)
           \<and> startsWith (time_h hourly ! startIndex u hourly) (currentHourStr u)
           \<and> (\<forall>j < startIndex u hourly. \<not> startsWith (time_h hourly ! j) (currentHourStr u)))
     \<and> ((\<forall>t\<in>set (time_h hourly). \<not> startsWith t (currentHourStr u)) \<longrightarrow>
           startIndex u hourly = 0)"
proof -
  define s where "s = startIndex u hourly"
  define m where "m = min (s + 24) (length (time_h hourly))"
  from getForecast_Resolved[OF assms(1)] assms(2,3)
  have "forecastOf u location fd = Resolved fr" by auto
  from forecastOf_Resolved[OF this] assms(4)
  have eq: "hourly_fr fr = map (hourlyItem u hourly) [s ..< m]"
    unfolding s_def m_def by auto
  have len_m: "length (hourly_fr fr) = m - s"
    unfolding eq by simp
  have len: "length (hourly_fr fr) = min 24 (length (time_h hourly) - s)"
    unfolding len_m m_def by arith
  have nth: "hourly_fr fr ! k = hourlyItem u hourly (s + k)" if "k < length (hourly_fr fr)" for k
  proof -
    from that have "s + k < m" unfolding len_m by arith
    then have "[s ..< m] ! k = s + k" by (rule nth_upt)
    moreover have "k < length [s ..< m]" using that unfolding len_m by simp
    ultimately show ?thesis unfolding eq by (simp only: nth_map)
  qed
  have le: "length (hourly_fr fr) \<le> 24"
    unfolding len by simp
  show ?thesis
    using le len nth startIndex_found[of hourly u] startIndex_none[of hourly u]
    unfolding s_def by blast
qed

theorem hourly_window_witness:
  "\<exists>fr. fst (getForecast sampleUpstream (Some ''Paris'') CELSIUS) = Resolved fr
        \<and> (\<exists>t\<in>set (time_h sampleHourly). startsWith t (currentHourStr sampleUpstream))
        \<and> startIndex sampleUpstream sampleHourly = 1
        \<and> length (hourly_fr fr) = 2
        \<and> hourly_fr fr ! 0 = hourlyItem sampleUpstream sampleHourly 1
        \<and> startsWith (time_h sampleHourly ! 1) (currentHourStr sampleUpstream)
        \<and> \<not> startsWith (time_h sampleHourly ! 0) (currentHourStr sampleUpstream)"
proof -
  obtain fr where fr: "fst (getForecast sampleUpstream (Some ''Paris'') CELSIUS) = Resolved fr"
    using sample_forecast by blast
  have ex: "\<exists>t\<in>set (time_h sampleHourly). startsWith t (currentHourStr sampleUpstream)"
    by (simp add: sampleHourly_def sampleUpstream_fields)
  have len: "length (time_h sampleHourly) = 3"
    by (simp add: sampleHourly_def)
  from hourly_window[OF fr sample_forecast_parts(1,2,4)] ex sample_startIndex len
  have "length (hourly_fr fr) = 2
        \<and> hourly_fr fr ! 0 = hourlyItem sampleUpstream sampleHourly 1
        \<and> startsWith (time_h sampleHourly ! 1) (currentHourStr sampleUpstream)
        \<and> \<not> startsWith (time_h sampleHourly ! 0) (currentHourStr sampleUpstream)"
    by simp
  with fr ex sample_startIndex show ?thesis by blast
qed

text \<open>
  The claim as written has every output start at a timestamp that matches the current
  hour. When no timestamp matches, the output starts at index 0 all the same: here the
  clock reads \<open>2024-04-30T23\<close>, the list starts at \<open>2024-05-01T09:00\<close>, and the
  hourly list built by \<open>getForecast\<close> holds the three upstream hours from index 0 on.
\<close>

theorem hourly_window_no_match:
  "\<not> startsWith (time_h sampleHourly ! startIndex staleUpstream sampleHourly)
        (currentHourStr staleUpstream)
   \<and> startIndex staleUpstream sampleHourly = 0
   \<and> fst (getForecast staleUpstream (Some ''Paris'') CELSIUS)
       = Resolved
          \<lparr>cod_fr = ''200'', message_fr = Num 0, cnt = Num 2,
           list_fr = dailyLoop staleUpstream sampleDaily 0 [],
           hourly_fr = hourlyLoop staleUpstream sampleHourly 0 0 [],
           city_fr =
             \<lparr>id_city = Num 2988507, name_city = ''Paris'',
              coord_city = \<lparr>lon = Num 2.35, lat = Num 48.85\<rparr>,
              country_city = Some ''FR'', population = Num 0, timezone_city = Num 7200,
              sunrise_city = Num 0, sunset_city = Num 0\<rparr>\<rparr>
   \<and> map temp_h (hourlyLoop staleUpstream sampleHourly 0 0 []) = [Num 20, Num 22.5, Num 23]"
proof -
  have f: "currentHourStr staleUpstream = ''2024-04-30T23''"
    "geo staleUpstream = geo sampleUpstream"
    "weather_forecast staleUpstream = weather_forecast sampleUpstream"
    by (simp_all add: staleUpstream_def)
  have s0: "startIndex staleUpstream sampleHourly = 0"
    by (simp add: startIndex_def foundIndex_def findIndex_def sampleHourly_def f)
  have nm: "\<not> startsWith (time_h sampleHourly ! 0) (currentHourStr staleUpstream)"
    by (simp add: sampleHourly_def f)
  have gc: "getCoordinates staleUpstream (Some ''Paris'') = getCoordinates sampleUpstream (Some ''Paris'')"
    by (simp add: getCoordinates_def f)
  have len: "length (dailyLoop staleUpstream sampleDaily 0 []) = 2"
    by (simp add: dailyLoop_eq sampleDaily_def)
  have fo: "forecastOf staleUpstream sampleLocation sampleForecastData
       = Resolved
          \<lparr>cod_fr = ''200'', message_fr = Num 0, cnt = Num 2,
           list_fr = dailyLoop staleUpstream sampleDaily 0 [],
           hourly_fr = hourlyLoop staleUpstream sampleHourly 0 0 [],
           city_fr =
             \<lparr>id_city = Num 2988507, name_city = ''Paris'',
              coord_city = \<lparr>lon = Num 2.35, lat = Num 48.85\<rparr>,
              country_city = Some ''FR'', population = Num 0, timezone_city = Num 7200,
              sunrise_city = Num 0, sunset_city = Num 0\<rparr>\<rparr>"
    by (simp add: forecastOf_def Let_def sampleForecastData_def s0 len sampleLocation_def)
  have gf: "fst (getForecast staleUpstream (Some ''Paris'') CELSIUS)
              = forecastOf staleUpstream sampleLocation sampleForecastData"
    by (simp add: getForecast_def gc sample_getCoordinates Let_def f sampleUpstream_fields fo)
  have hl: "map temp_h (hourlyLoop staleUpstream sampleHourly 0 0 []) = [Num 20, Num 22.5, Num 23]"
    by (simp add: hourlyLoop_eq hourlyItem_def js_index_def sampleHourly_def upt_rec)
  from s0 nm gf fo hl show ?thesis by simp
qed

section \<open>The description table (C3)\<close>

text \<open>
  Claim C3, as the code has it. The description table has 28 entries; a code that the
  table does not hold is described as \<open>Unknown\<close>, a code that it holds by its entry;
  \<open>getDescription\<close> is a total function, it has no failing path. A snapshot built from
  a payload with weather code 61 and is-day 1 has the icon \<open>10d\<close> and the description
  \<open>Slight rain\<close>.
\<close>

theorem description_table:
  "length codes = 28
   \<and> (\<forall>w. codes_lookup w = None \<longrightarrow> getDescription w = ''Unknown'')
   \<and> (\<forall>r s. (r, s) \<in> set codes \<longrightarrow> getDescription (Num r) = s)
   \<and> (\<forall>u cty unit cw loc wd c.
         fst (getCurrentWeather u cty unit) = Resolved cw
         \<and> fst (getCoordinates u cty) = Resolved loc
         \<and> weather_current u (currentWeatherParams loc unit) = Resolved wd
         \<and> current_w wd = Some c \<and> weather_code c = Num 61 \<and> is_day c = Num 1
       \<longrightarrow> weather cw = [\<lparr>id_wc = Num 61, main_wc = ''Slight rain'',
                            description = ''Slight rain'', icon = ''10d''\<rparr>])"
proof -
  have d61: "getDescription (Num 61) = ''Slight rain''"
    by (rule getDescription_entry) (simp add: codes_def)
  have i61: "getIconCode (Num 61) (Num 1) = ''10d''"
    by (simp add: getIconCode_def)
  have snap: "weather cw = [\<lparr>id_wc = Num 61, main_wc = ''Slight rain'',
                            description = ''Slight rain'', icon = ''10d''\<rparr>]"
    if "fst (getCurrentWeather u cty unit) = Resolved cw" "fst (getCoordinates u cty) = Resolved loc"
       "weather_current u (currentWeatherParams loc unit) = Resolved wd" "current_w wd = Some c"
       "weather_code c = Num 61" "is_day c = Num 1"
    for u cty unit cw loc wd c
  proof -
    from getCurrentWeather_Resolved[OF that(1)] that(2,3) obtain ad
      where "currentWeatherOf u loc wd ad = Resolved cw" by auto
    from currentWeatherOf_Resolved[OF this] that(4,5,6) d61 i61 show ?thesis by auto
  qed
  show ?thesis
    using codes_len getDescription_unknown getDescription_entry snap by blast
qed

theorem description_table_witness:
  "codes_lookup (Num 4) = None \<and> getDescription (Num 4) = ''Unknown''
   \<and> codes_lookup Undefined = None \<and> getDescription Undefined = ''Unknown''
   \<and> (99, ''Thunderstorm with heavy hail'') \<in> set codes
   \<and> getDescription (Num 99) = ''Thunderstorm with heavy hail''
   \<and> weather_code sampleCurrent = Num 61 \<and> is_day sampleCurrent = Num 1
   \<and> (\<exists>cw. fst (getCurrentWeather sampleUpstream (Some ''Paris'') CELSIUS) = Resolved cw
          \<and> weather cw = [\<lparr>id_wc = Num 61, main_wc = ''Slight rain'',
                             description = ''Slight rain'', icon = ''10d''\<rparr>])"
proof -
  obtain cw where cw: "fst (getCurrentWeather sampleUpstream (Some ''Paris'') CELSIUS) = Resolved cw"
    using sample_currentWeather by blast
  have a: "codes_lookup (Num 4) = None" "codes_lookup Undefined = None"
    by (simp_all add: codes_def)
  have b: "(99, ''Thunderstorm with heavy hail'') \<in> set codes"
    by (simp add: codes_def)
  have c: "weather_code sampleCurrent = Num 61" "is_day sampleCurrent = Num 1"
    by (simp_all add: sampleCurrent_def)
  note U = description_table[THEN conjunct2, THEN conjunct1, rule_format]
  note E = description_table[THEN conjunct2, THEN conjunct2, THEN conjunct1, rule_format]
  note S = description_table[THEN conjunct2, THEN conjunct2, THEN conjunct2, rule_format,
              of sampleUpstream "Some ''Paris''" CELSIUS cw sampleLocation sampleWeatherData sampleCurrent]
  have "weather cw = [\<lparr>id_wc = Num 61, main_wc = ''Slight rain'',
                        description = ''Slight rain'', icon = ''10d''\<rparr>]"
    using cw sample_forecast_parts(1,3,6) c by (intro S conjI)
  with U[OF a(1)] U[OF a(2)] E[OF b] a b c cw show ?thesis
    by blast
qed

text \<open>
  The claim as written counts 30 entries in the table; the table has 28.
\<close>

theorem description_table_not_30:
  "length codes \<noteq> 30"
  by (simp add: codes_def)

section \<open>Daily forecast entries (C4)\<close>

text \<open>
  Claim C4, as the code has it. For every entry \<open>i\<close> of the daily list of a resolved
  forecast, the feels-like value is that day's reported maximum, the pressure is 1013
  and the humidity is 50. The temperature is \<open>(max + min) / 2\<close> as JavaScript computes
  it: when the maximum \<open>hi\<close> and the minimum \<open>lo\<close> are reported as numbers, the sum
  \<open>hi + lo\<close> rounded to the nearest double, halved and rounded again. That is the
  arithmetic mean whenever the sum and its half are doubles themselves.
\<close>

theorem daily_entry_fields:
  assumes "fst (getForecast u cty unit) = Resolved fr"
    and "fst (getCoordinates u cty) = Resolved location"
    and "weather_forecast u (forecastParams location unit) = Resolved fd"
    and "daily_fd fd = Some daily"
    and "i < length (list_fr fr)"
  shows "temp (main_f (list_fr fr ! i))
           = js_div (js_add (js_index (temperature_2m_max daily) i)
                            (js_index (temperature_2m_min daily) i)) 2
     \<and> (\<forall>hi lo. js_index (temperature_2m_max daily) i = Num hi
            \<and> js_index (temperature_2m_min daily) i = Num lo \<longrightarrow>
          temp (main_f (list_fr fr ! i)) = divNumber (fl (hi + lo)) 2)
     \<and> (\<forall>hi lo. js_index (temperature_2m_max daily) i = Num hi
            \<and> js_index (temperature_2m_min daily) i = Num lo
            \<and> fl (hi + lo) = Num (hi + lo) \<and> fl ((hi + lo) / 2) = Num ((hi + lo) / 2) \<longrightarrow>
          temp (main_f (list_fr fr ! i)) = Num ((hi + lo) / 2))
     \<and> feels_like (main_f (list_fr fr ! i)) = js_index (temperature_2m_max daily) i
     \<and> pressure (main_f (list_fr fr ! i)) = Num 1013
     \<and> humidity (main_f (list_fr fr ! i)) = Num 50"
proof -
  from getForecast_Resolved[OF assms(1)] assms(2,3)
  have "forecastOf u location fd = Resolved fr" by auto
  from forecastOf_Resolved[OF this] assms(4)
  have eq: "list_fr fr = map (forecastItem u daily) [0 ..< min (length (time_d daily)) 5]"
    by auto
  with assms(5) have item: "list_fr fr ! i = forecastItem u daily i"
    by simp
  show ?thesis
    unfolding item by (simp add: forecastItem_def Let_def js_add_def js_div_def toNumber_fl)
qed

theorem daily_entry_fields_witness:
  "\<exists>fr. fst (getForecast sampleUpstream (Some ''Paris'') CELSIUS) = Resolved fr
        \<and> 0 < length (list_fr fr)
        \<and> js_index (temperature_2m_max sampleDaily) 0 = Num 24
        \<and> js_index (temperature_2m_min sampleDaily) 0 = Num 14
        \<and> fl (24 + 14) = Num (24 + 14) \<and> fl ((24 + 14) / 2) = Num ((24 + 14) / 2)
        \<and> temp (main_f (list_fr fr ! 0)) = Num 19
        \<and> feels_like (main_f (list_fr fr ! 0)) = Num 24
        \<and> pressure (main_f (list_fr fr ! 0)) = Num 1013
        \<and> humidity (main_f (list_fr fr ! 0)) = Num 50"
proof -
  obtain fr where fr: "fst (getForecast sampleUpstream (Some ''Paris'') CELSIUS) = Resolved fr"
    using sample_forecast by blast
  from getForecast_Resolved[OF fr] sample_forecast_parts(1,2)
  have "forecastOf sampleUpstream sampleLocation sampleForecastData = Resolved fr" by auto
  from forecastOf_Resolved[OF this] sample_forecast_parts(5)
  have "list_fr fr = map (forecastItem sampleUpstream sampleDaily) [0 ..< min (length (time_d sampleDaily)) 5]"
    by auto
  then have pos: "0 < length (list_fr fr)"
    by (simp add: sampleDaily_def)
  have hi: "js_index (temperature_2m_max sampleDaily) 0 = Num 24"
    by (simp add: js_index_def sampleDaily_def)
  have lo: "js_index (temperature_2m_min sampleDaily) 0 = Num 14"
    by (simp add: js_index_def sampleDaily_def)
  have r: "fl (24 + 14) = Num (24 + 14)" "fl ((24 + 14) / 2) = Num ((24 + 14) / 2)"
    using fl_38 fl_19 by simp_all
  note T = daily_entry_fields[OF fr sample_forecast_parts(1,2,5) pos]
  from T hi lo r have "temp (main_f (list_fr fr ! 0)) = Num ((24 + 14) / 2)"
    by blast
  moreover from T hi have "feels_like (main_f (list_fr fr ! 0)) = Num 24"
    by simp
  moreover from T have "pressure (main_f (list_fr fr ! 0)) = Num 1013"
    "humidity (main_f (list_fr fr ! 0)) = Num 50"
    by simp_all
  ultimately show ?thesis using fr pos hi lo r by auto
qed

text \<open>
  The claim as written makes the temperature the arithmetic mean. For a maximum of 0.2
  and a minimum of 0.1 (as doubles, \<open>3602879701896397 / 2 ^ 54\<close> and
  \<open>3602879701896397 / 2 ^ 55\<close>) the entry built by the loop has the temperature
  \<open>5404319552844596 / 2 ^ 55\<close>, printed 0.15000000000000002: the sum is rounded up to
  the next double before it is halved, and the result is not the mean of the two.
\<close>

theorem daily_mean_is_rounded:
  "dailyLoop sampleUpstream roundingDaily 0 [] = [forecastItem sampleUpstream roundingDaily 0]
   \<and> js_index (temperature_2m_max roundingDaily) 0 = Num (3602879701896397 / 2 ^ 54)
   \<and> js_index (temperature_2m_min roundingDaily) 0 = Num (3602879701896397 / 2 ^ 55)
   \<and> temp (main_f (forecastItem sampleUpstream roundingDaily 0)) = Num (5404319552844596 / 2 ^ 55)
   \<and> temp (main_f (forecastItem sampleUpstream roundingDaily 0))
        \<noteq> Num ((3602879701896397 / 2 ^ 54 + 3602879701896397 / 2 ^ 55) / 2)"
proof -
  have l: "dailyLoop sampleUpstream roundingDaily 0 [] = [forecastItem sampleUpstream roundingDaily 0]"
    by (simp add: dailyLoop_eq roundingDaily_def)
  have hi: "js_index (temperature_2m_max roundingDaily) 0 = Num (3602879701896397 / 2 ^ 54)"
    and lo: "js_index (temperature_2m_min roundingDaily) 0 = Num (3602879701896397 / 2 ^ 55)"
    by (simp_all add: js_index_def roundingDaily_def)
  have m: "js_div (js_add (js_index (temperature_2m_max roundingDaily) 0)
                          (js_index (temperature_2m_min roundingDaily) 0)) 2
             = Num (5404319552844596 / 2 ^ 55)"
    unfolding hi lo
    by (simp only: js_add_def js_div_def toNumber.simps addNumbers.simps divNumber.simps
          fl_sum_tenths fl_half_sum_tenths)
  have t: "temp (main_f (forecastItem sampleUpstream roundingDaily 0)) = Num (5404319552844596 / 2 ^ 55)"
    by (simp add: forecastItem_def Let_def m)
  have ne: "Num (5404319552844596 / 2 ^ 55)
        \<noteq> Num ((3602879701896397 / 2 ^ 54 + 3602879701896397 / 2 ^ 55) / 2)"
    by simp
  from l hi lo t ne show ?thesis by simp
qed

section \<open>Wind speed unit (C9)\<close>

text \<open>
  Claim C9. Whatever the temperature unit, every request that the two weather fetches
  send to the weather endpoint asks for wind speed in \<open>ms\<close> (metres per second), and
  the snapshot's wind speed is the upstream \<open>wind_speed_10m\<close> unchanged.
\<close>

theorem wind_speed_metres_per_second:
  "wind_speed_unit (currentWeatherParams location unit) = ''ms''
   \<and> wind_speed_unit (forecastParams location unit) = ''ms''
   \<and> (\<forall>p. WeatherRequest p \<in> set (snd (getCurrentWeather u cty unit))
                \<union> set (snd (getForecast u cty unit)) \<longrightarrow> wind_speed_unit p = ''ms'')
   \<and> (\<forall>cw loc wd c. fst (getCurrentWeather u cty unit) = Resolved cw
          \<and> fst (getCoordinates u cty) = Resolved loc
          \<and> weather_current u (currentWeatherParams loc unit) = Resolved wd
          \<and> current_w wd = Some c
        \<longrightarrow> speed (wind cw) = wind_speed_10m c)"
proof -
  have a: "wind_speed_unit (currentWeatherParams l un) = ''ms''" for l un
    by (simp add: currentWeatherParams_def)
  have b: "wind_speed_unit (forecastParams l un) = ''ms''" for l un
    by (simp add: forecastParams_def)
  have c: "wind_speed_unit p = ''ms''"
    if "WeatherRequest p \<in> set (snd (getCurrentWeather u cty unit)) \<union> set (snd (getForecast u cty unit))" for p
    using that a b getCurrentWeather_requests[of p u cty unit] getForecast_requests[of p u cty unit]
    by auto
  have d: "speed (wind cw) = wind_speed_10m c"
    if "fst (getCurrentWeather u cty unit) = Resolved cw" "fst (getCoordinates u cty) = Resolved loc"
       "weather_current u (currentWeatherParams loc unit) = Resolved wd" "current_w wd = Some c"
    for cw loc wd c
  proof -
    from getCurrentWeather_Resolved[OF that(1)] that(2,3) obtain ad
      where "currentWeatherOf u loc wd ad = Resolved cw" by auto
    from currentWeatherOf_Resolved[OF this] that(4) show ?thesis by auto
  qed
  show ?thesis using a b c d by blast
qed

theorem wind_speed_metres_per_second_witness:
  "WeatherRequest (currentWeatherParams sampleLocation FAHRENHEIT)
      \<in> set (snd (getCurrentWeather sampleUpstream (Some ''Paris'') FAHRENHEIT))
   \<and> wind_speed_unit (currentWeatherParams sampleLocation FAHRENHEIT) = ''ms''
   \<and> temperature_unit (currentWeatherParams sampleLocation FAHRENHEIT) = ''fahrenheit''
   \<and> (\<exists>cw. fst (getCurrentWeather sampleUpstream (Some ''Paris'') FAHRENHEIT) = Resolved cw
          \<and> speed (wind cw) = Num 3.4)"
proof -
  obtain cw where cw: "fst (getCurrentWeather sampleUpstream (Some ''Paris'') FAHRENHEIT) = Resolved cw"
    using sample_currentWeather by blast
  have rq: "WeatherRequest (currentWeatherParams sampleLocation FAHRENHEIT)
      \<in> set (snd (getCurrentWeather sampleUpstream (Some ''Paris'') FAHRENHEIT))"
    by (simp add: getCurrentWeather_def sample_getCoordinates Let_def
          sampleUpstream_fields split: promise.splits)
  have tu: "temperature_unit (currentWeatherParams sampleLocation FAHRENHEIT) = ''fahrenheit''"
    by (simp add: currentWeatherParams_def temperatureUnit_def)
  have sp: "wind_speed_10m sampleCurrent = Num 3.4"
    by (simp add: sampleCurrent_def)
  from wind_speed_metres_per_second[of sampleLocation FAHRENHEIT sampleUpstream "Some ''Paris''"]
    cw rq tu sp sample_forecast_parts(1,3,6)
  show ?thesis by metis
qed

section \<open>Minimum, maximum and visibility of a snapshot (C10)\<close>

text \<open>
  Claim C10. In every snapshot that the current-weather fetch returns, the minimum and
  the maximum temperature both equal the current temperature, and the visibility is
  10000.
\<close>

theorem current_min_max_visibility:
  assumes "fst (getCurrentWeather u cty unit) = Resolved cw"
  shows "temp_min (main cw) = temp (main cw) \<and> temp_max (main cw) = temp (main cw)
         \<and> visibility cw = Num 10000"
proof -
  from getCurrentWeather_Resolved[OF assms] obtain location wd ad
    where "currentWeatherOf u location wd ad = Resolved cw" by blast
  from currentWeatherOf_Resolved[OF this] show ?thesis by auto
qed

theorem current_min_max_visibility_witness:
  "\<exists>cw. fst (getCurrentWeather sampleUpstream (Some ''Paris'') CELSIUS) = Resolved cw
        \<and> temp (main cw) = Num 22.5 \<and> temp_min (main cw) = Num 22.5
        \<and> temp_max (main cw) = Num 22.5 \<and> visibility cw = Num 10000"
proof -
  obtain cw where cw: "fst (getCurrentWeather sampleUpstream (Some ''Paris'') CELSIUS) = Resolved cw"
    using sample_currentWeather by blast
  from getCurrentWeather_Resolved[OF cw] sample_forecast_parts(1,3) obtain ad
    where "currentWeatherOf sampleUpstream sampleLocation sampleWeatherData ad = Resolved cw"
    by auto
  from currentWeatherOf_Resolved[OF this] sample_forecast_parts(6)
  have "temp (main cw) = Num 22.5" by (auto simp: sampleCurrent_def)
  with current_min_max_visibility[OF cw] cw show ?thesis by auto
qed

section \<open>The catch blocks and the component, step by step\<close>

lemma js_eq_Num: "js_eq x k = (x = Num k)"
  by (cases x) auto

lemma sceneCatch_eq:
  "sceneCatch e = \<lparr>imageData = None, isQuotaError = sceneQuotaSignal e\<rparr>"
  by (auto simp: sceneCatch_def sceneQuotaSignal_def js_eq_Num split: option.splits)

lemma generateWeatherScene_Rejected:
  assumes "apiKey g" "weather w = w0 # ws" "generateContent_image g (scenePrompt w w0) = Rejected e"
  shows "generateWeatherScene g w
           = (\<lparr>imageData = None, isQuotaError = sceneQuotaSignal e\<rparr>, [SceneRequest (scenePrompt w w0)])"
  using assms by (simp add: generateWeatherScene_def Let_def sceneCatch_eq)

lemma tick_fields:
  "currentWeather (tick st) = currentWeather st"
  "retryCountdown (tick st) = (if retryCountdown st > 0 then retryCountdown st - 1 else retryCountdown st)"
  by (simp_all add: tick_def)

lemma ticks_currentWeather: "currentWeather (ticks n st) = currentWeather st"
  by (induction n arbitrary: st) (simp_all add: tick_fields)

lemma ticks_countdown:
  "int n \<le> retryCountdown st \<Longrightarrow> retryCountdown (ticks n st) = retryCountdown st - int n"
proof (induction n arbitrary: st)
  case 0
  then show ?case by simp
next
  case (Suc n)
  then have "int n \<le> retryCountdown (tick st)"
    by (simp add: tick_fields)
  from Suc.IH[OF this] Suc.prems show ?case
    by (simp add: tick_fields)
qed

lemma retry_gate:
  "retryCountdown st > 0 \<Longrightarrow> retryBackgroundGeneration wd st = (st, [])"
  by (simp add: retryBackgroundGeneration_def split: option.splits)

lemma applyScene_quota:
  "applyScene b \<lparr>imageData = None, isQuotaError = True\<rparr> st
     = st\<lparr>bgQuotaError := True, retryCountdown := 86400\<rparr>"
  by (simp add: applyScene_def)

lemma fetchData_resolved:
  assumes "fst (getCurrentWeather (weatherApi wd) cty (unit_s st)) = Resolved cw"
    and "fst (getForecast (weatherApi wd) cty (unit_s st)) = Resolved fr"
  shows "fst (fetchData wd st cty intent)
     = (applyScene False (fst (generateWeatherScene (genai wd) cw))
          (st\<lparr>loading := True, error := None, insight := [], bgImage := None,
              bgQuotaError := False, retryCountdown := 0, isSpeaking := False,
              currentWeather := Some cw, forecast := Some fr, city := cty,
              insight := concat (fst (streamWeatherInsight (genai wd) cw (unit_s st) intent)),
              loadingInsight := False\<rparr>))
        \<lparr>loadingBg := False, loading := False\<rparr>"
proof -
  have "promise_all (forecastFirst wd) (fst (getCurrentWeather (weatherApi wd) cty (unit_s st)))
          (fst (getForecast (weatherApi wd) cty (unit_s st))) = Resolved (cw, fr)"
    using assms by simp
  then show ?thesis
    by (simp add: fetchData_def Let_def case_prod_beta)
qed


lemma fetchData_rejected:
  assumes "promise_all (forecastFirst wd) (fst (getCurrentWeather (weatherApi wd) cty (unit_s st)))
             (fst (getForecast (weatherApi wd) cty (unit_s st))) = Rejected err"
  shows "fst (fetchData wd st cty intent)
     = st\<lparr>loading := True, error := None, insight := [], bgImage := None,
           bgQuotaError := False, retryCountdown := 0, isSpeaking := False,
           error := Some (js_or_str (err_message err)
                            ''Could not find weather data. Please try another city.''),
           currentWeather := None, forecast := None, loading := False\<rparr>"
  using assms by (simp add: fetchData_def Let_def case_prod_beta)












lemma fetchData_any_failure:
  assumes "(\<exists>e. fst (getCurrentWeather (weatherApi wd) cty (unit_s st)) = Rejected e)
           \<or> (\<exists>e. fst (getForecast (weatherApi wd) cty (unit_s st)) = Rejected e)"
  shows "currentWeather (fst (fetchData wd st cty intent)) = None
         \<and> forecast (fst (fetchData wd st cty intent)) = None
         \<and> loading (fst (fetchData wd st cty intent)) = False
         \<and> (\<exists>e. (fst (getCurrentWeather (weatherApi wd) cty (unit_s st)) = Rejected e
                   \<or> fst (getForecast (weatherApi wd) cty (unit_s st)) = Rejected e)
                \<and> error (fst (fetchData wd st cty intent))
                    = Some (js_or_str (err_message e)
                              ''Could not find weather data. Please try another city.''))"
proof -
  let ?p = "fst (getCurrentWeather (weatherApi wd) cty (unit_s st))"
  let ?q = "fst (getForecast (weatherApi wd) cty (unit_s st))"
  from assms obtain err where err: "promise_all (forecastFirst wd) ?p ?q = Rejected err"
    by (cases ?p; cases ?q) auto
  from promise_all_Rejected[OF err] have "?p = Rejected err \<or> ?q = Rejected err" .
  with fetchData_rejected[OF err, of intent] show ?thesis
    by auto
qed

section \<open>The sample world, evaluated\<close>

lemma sample_snapshot:
  "\<exists>cw w0. fst (getCurrentWeather sampleUpstream (Some ''Paris'') CELSIUS) = Resolved cw
           \<and> weather cw = [w0]"
proof -
  obtain cw where cw: "fst (getCurrentWeather sampleUpstream (Some ''Paris'') CELSIUS) = Resolved cw"
    using sample_currentWeather by blast
  from getCurrentWeather_Resolved[OF cw] obtain location wd ad
    where "currentWeatherOf sampleUpstream location wd ad = Resolved cw" by blast
  from currentWeatherOf_Resolved[OF this] cw show ?thesis by blast
qed

lemma sampleWorld_fields:
  "weatherApi sampleWorld = sampleUpstream" "genai sampleWorld = exhaustedGemini"
  "forecastFirst sampleWorld = False"
  by (simp_all add: sampleWorld_def)

lemma initialState_fields:
  "unit_s initialState = CELSIUS" "searchQuery initialState = []"
  by (simp_all add: initialState_def)

lemma exhaustedGemini_fields:
  "apiKey exhaustedGemini"
  "generateContent_text exhaustedGemini q = Rejected quotaError"
  "generateContent_image exhaustedGemini sp = Rejected quotaError"
  "generateContentStream exhaustedGemini ip = Rejected quotaError"
  by (simp_all add: exhaustedGemini_def)

lemma quotaError_signals:
  "sceneQuotaSignal quotaError" "\<not> sceneQuotaSignal (Error ''Failed to fetch'')"
  "sceneQuotaSignal (Error ''got status: 429 Too Many Requests'')"
  by (simp_all add: sceneQuotaSignal_def quotaError_def Error_def)

lemma offlineGemini_fields:
  "apiKey offlineGemini"
  "generateContent_image offlineGemini sp = Rejected (Error ''Failed to fetch'')"
  "generateContentStream offlineGemini ip = Rejected (Error ''Failed to fetch'')"
  by (simp_all add: offlineGemini_def)

section \<open>Scene generation under quota exhaustion (C5)\<close>

text \<open>
  Claim C5. When the image request fails, \<open>generateWeatherScene\<close> returns no image
  and raises nothing; \<open>isQuotaError\<close> is true exactly when the error signals quota
  exhaustion (resource-exhausted status, code 429, or a message that mentions 429) and
  false on any other failure. When \<open>fetchData\<close> receives the quota result it sets the
  countdown to 86400. While the countdown is positive, \<open>retryBackgroundGeneration\<close>
  changes nothing and issues no request; that is so after each of the first 86399
  ticks. A retry at countdown zero that meets the quota again restarts the countdown.
\<close>

theorem scene_quota_retry_gate:
  "(apiKey g \<and> weather w = w0 # ws \<and> generateContent_image g (scenePrompt w w0) = Rejected e \<longrightarrow>
      imageData (fst (generateWeatherScene g w)) = None
      \<and> isQuotaError (fst (generateWeatherScene g w)) = sceneQuotaSignal e)
   \<and> (fst (getCurrentWeather (weatherApi wd) cty (unit_s st)) = Resolved cw
      \<and> fst (getForecast (weatherApi wd) cty (unit_s st)) = Resolved fr
      \<and> fst (generateWeatherScene (genai wd) cw) = \<lparr>imageData = None, isQuotaError = True\<rparr> \<longrightarrow>
        retryCountdown (fst (fetchData wd st cty intent)) = 86400
        \<and> bgQuotaError (fst (fetchData wd st cty intent))
        \<and> bgImage (fst (fetchData wd st cty intent)) = None
        \<and> currentWeather (fst (fetchData wd st cty intent)) = Some cw)
   \<and> (retryCountdown sta > 0 \<longrightarrow> retryBackgroundGeneration wda sta = (sta, []))
   \<and> (retryCountdown sta = 86400 \<and> n < 86400 \<longrightarrow>
        retryCountdown (ticks n sta) = 86400 - int n
        \<and> retryBackgroundGeneration wda (ticks n sta) = (ticks n sta, []))
   \<and> (currentWeather sta = Some cwa \<and> retryCountdown sta \<le> 0
      \<and> fst (generateWeatherScene (genai wda) cwa) = \<lparr>imageData = None, isQuotaError = True\<rparr> \<longrightarrow>
        retryCountdown (fst (retryBackgroundGeneration wda sta)) = 86400
        \<and> snd (retryBackgroundGeneration wda sta) = snd (generateWeatherScene (genai wda) cwa))"
proof -
  have a: "imageData (fst (generateWeatherScene g w)) = None
      \<and> isQuotaError (fst (generateWeatherScene g w)) = sceneQuotaSignal e"
    if "apiKey g" "weather w = w0 # ws" "generateContent_image g (scenePrompt w w0) = Rejected e"
    using generateWeatherScene_Rejected[OF that] by simp
  have b: "retryCountdown (fst (fetchData wd st cty intent)) = 86400
        \<and> bgQuotaError (fst (fetchData wd st cty intent))
        \<and> bgImage (fst (fetchData wd st cty intent)) = None
        \<and> currentWeather (fst (fetchData wd st cty intent)) = Some cw"
    if "fst (getCurrentWeather (weatherApi wd) cty (unit_s st)) = Resolved cw"
       "fst (getForecast (weatherApi wd) cty (unit_s st)) = Resolved fr"
       "fst (generateWeatherScene (genai wd) cw) = \<lparr>imageData = None, isQuotaError = True\<rparr>"
    using fetchData_resolved[OF that(1,2), of intent] that(3)
    by (simp add: applyScene_quota)
  have c: "retryBackgroundGeneration wda sta = (sta, [])" if "retryCountdown sta > 0"
    using that by (rule retry_gate)
  have d: "retryCountdown (ticks n sta) = 86400 - int n
        \<and> retryBackgroundGeneration wda (ticks n sta) = (ticks n sta, [])"
    if "retryCountdown sta = 86400" "n < 86400"
  proof -
    from that have "int n \<le> retryCountdown sta" by simp
    from ticks_countdown[OF this] that have r: "retryCountdown (ticks n sta) = 86400 - int n"
      by simp
    with that(2) have "retryCountdown (ticks n sta) > 0" by simp
    from retry_gate[OF this] r show ?thesis by simp
  qed
  have e: "retryCountdown (fst (retryBackgroundGeneration wda sta)) = 86400
        \<and> snd (retryBackgroundGeneration wda sta) = snd (generateWeatherScene (genai wda) cwa)"
    if "currentWeather sta = Some cwa" "retryCountdown sta \<le> 0"
       "fst (generateWeatherScene (genai wda) cwa) = \<lparr>imageData = None, isQuotaError = True\<rparr>"
    using that
    by (simp add: retryBackgroundGeneration_def case_prod_beta applyScene_quota)
  show ?thesis
    using a b c d e by blast
qed

theorem scene_quota_retry_gate_witness:
  "apiKey exhaustedGemini \<and> sceneQuotaSignal quotaError
   \<and> (\<exists>cw fr. fst (getCurrentWeather (weatherApi sampleWorld) (Some ''Paris'') (unit_s initialState)) = Resolved cw
         \<and> fst (getForecast (weatherApi sampleWorld) (Some ''Paris'') (unit_s initialState)) = Resolved fr
         \<and> fst (generateWeatherScene (genai sampleWorld) cw) = \<lparr>imageData = None, isQuotaError = True\<rparr>)
   \<and> retryCountdown (fst (fetchData sampleWorld initialState (Some ''Paris'') None)) = 86400
   \<and> retryCountdown (ticks 86399 (fst (fetchData sampleWorld initialState (Some ''Paris'') None))) = 1
   \<and> retryBackgroundGeneration sampleWorld (ticks 86399 (fst (fetchData sampleWorld initialState (Some ''Paris'') None)))
        = (ticks 86399 (fst (fetchData sampleWorld initialState (Some ''Paris'') None)), [])"
proof -
  obtain cw w0 where cw: "fst (getCurrentWeather sampleUpstream (Some ''Paris'') CELSIUS) = Resolved cw"
    and w0: "weather cw = [w0]"
    using sample_snapshot by blast
  obtain fr where fr: "fst (getForecast sampleUpstream (Some ''Paris'') CELSIUS) = Resolved fr"
    using sample_forecast by blast
  let ?st = "fst (fetchData sampleWorld initialState (Some ''Paris'') None)"
  note T = scene_quota_retry_gate[where g = exhaustedGemini and w = cw and ?w0.0 = w0 and ws = "[]"
      and e = quotaError and wd = sampleWorld and cty = "Some ''Paris''" and st = initialState
      and cw = cw and fr = fr and intent = None and sta = ?st and wda = sampleWorld
      and n = 86399 and cwa = cw]
  from T w0 exhaustedGemini_fields quotaError_signals(1)
  have "imageData (fst (generateWeatherScene exhaustedGemini cw)) = None
        \<and> isQuotaError (fst (generateWeatherScene exhaustedGemini cw)) = True"
    by simp
  then have scene: "fst (generateWeatherScene (genai sampleWorld) cw) = \<lparr>imageData = None, isQuotaError = True\<rparr>"
    by (cases "fst (generateWeatherScene exhaustedGemini cw)") (simp add: sampleWorld_fields)
  have cw': "fst (getCurrentWeather (weatherApi sampleWorld) (Some ''Paris'') (unit_s initialState)) = Resolved cw"
    and fr': "fst (getForecast (weatherApi sampleWorld) (Some ''Paris'') (unit_s initialState)) = Resolved fr"
    using cw fr by (simp_all add: sampleWorld_fields initialState_fields)
  from T cw' fr' scene have c: "retryCountdown ?st = 86400" by blast
  from T c have "retryCountdown (ticks 86399 ?st) = 86400 - int 86399
        \<and> retryBackgroundGeneration sampleWorld (ticks 86399 ?st) = (ticks 86399 ?st, [])"
    by simp
  with c cw' fr' scene exhaustedGemini_fields(1) quotaError_signals(1) show ?thesis
    by auto
qed

section \<open>The insight stream under failure (C6)\<close>

lemma sample_snapshot_value:
  "fst (getCurrentWeather sampleUpstream (Some ''Paris'') unit) = Resolved sampleSnapshot"
proof -
  have d: "js_div (Num 1714557600000) 1000 = Num 1714557600"
    by (simp only: js_div_def toNumber.simps divNumber.simps fl_seconds)
  have i: "getIconCode (Num 61) (Num 1) = ''10d''"
    by (simp add: getIconCode_def)
  have g: "getDescription (Num 61) = ''Slight rain''"
    by (rule getDescription_entry) (simp add: codes_def)
  have "currentWeatherOf sampleUpstream sampleLocation sampleWeatherData sampleAqiData
          = Resolved sampleSnapshot"
    by (simp add: currentWeatherOf_def sampleWeatherData_def sampleAqiData_def sampleCurrent_def
          sampleLocation_def sampleSnapshot_def sampleUpstream_fields js_index_str_def js_index_def
          js_or_str_def d i g)
  then show ?thesis
    by (simp add: getCurrentWeather_def sample_getCoordinates Let_def sampleUpstream_fields)
qed

lemma insight_rejected_chunks:
  assumes "apiKey g" "weather w = w0 # ws"
    and "generateContentStream g (insightPrompt w w0 unit intent) = Rejected e"
  shows "streamWeatherInsight g w unit intent
           = ([if err_status e = Some ''RESOURCE_EXHAUSTED'' \<or> err_code e = Num 429
               then apologyMessage else offlineMessage],
              [InsightRequest (insightPrompt w w0 unit intent)])"
  using assms by (simp add: streamWeatherInsight_def Let_def insightCatch_def js_eq_Num)

lemma insight_midstream_chunks:
  assumes "apiKey g" "weather w = w0 # ws"
    and "generateContentStream g (insightPrompt w w0 unit intent) = Resolved sr"
    and "failure sr = Some e"
  shows "streamWeatherInsight g w unit intent
           = (chunkTexts (chunks sr)
                @ [if err_status e = Some ''RESOURCE_EXHAUSTED'' \<or> err_code e = Num 429
                   then apologyMessage else offlineMessage],
              [InsightRequest (insightPrompt w w0 unit intent)])"
  using assms by (simp add: streamWeatherInsight_def Let_def insightCatch_def js_eq_Num)

lemma busyGemini_fields:
  "apiKey busyGemini"
  "generateContent_image busyGemini sp = Rejected (Error ''got status: 429 Too Many Requests'')"
  "generateContentStream busyGemini ip = Rejected (Error ''got status: 429 Too Many Requests'')"
  by (simp_all add: busyGemini_def)

lemma sampleSnapshot_weather:
  "weather sampleSnapshot
     = [\<lparr>id_wc = Num 61, main_wc = ''Slight rain'', description = ''Slight rain'', icon = ''10d''\<rparr>]"
  by (simp add: sampleSnapshot_def)

text \<open>
  Claim C6. The catch block of \<open>streamWeatherInsight\<close> tells quota exhaustion from
  other failures by the error's status and code alone. An error that reports the 429
  only in its message, which \<open>generateWeatherScene\<close> counts as quota exhaustion, is
  answered with the service-unavailable message instead of the apology. Evaluated here:
  the same rejection sent to both calls, and the two fixed messages letter by letter.
\<close>

theorem insight_misses_message_429:
  "sceneQuotaSignal (Error ''got status: 429 Too Many Requests'')
   \<and> fst (generateWeatherScene busyGemini sampleSnapshot) = \<lparr>imageData = None, isQuotaError = True\<rparr>
   \<and> fst (streamWeatherInsight busyGemini sampleSnapshot CELSIUS None)
       = [''Gemini is currently offline due to atmospheric interference (API Error).'']
   \<and> sceneQuotaSignal quotaError
   \<and> fst (streamWeatherInsight exhaustedGemini sampleSnapshot CELSIUS None)
       = [''I'' @ [CHR 0x27] @ ''m currently receiving too many requests. Please check back in a moment for your smart insights!'']"
proof -
  have a: "fst (generateWeatherScene busyGemini sampleSnapshot) = \<lparr>imageData = None, isQuotaError = True\<rparr>"
    using generateWeatherScene_Rejected[OF busyGemini_fields(1) sampleSnapshot_weather busyGemini_fields(2)]
      quotaError_signals(3)
    by simp
  have b: "fst (streamWeatherInsight busyGemini sampleSnapshot CELSIUS None) = [offlineMessage]"
    using insight_rejected_chunks[OF busyGemini_fields(1) sampleSnapshot_weather busyGemini_fields(3)]
    by (simp add: Error_def)
  have c: "fst (streamWeatherInsight exhaustedGemini sampleSnapshot CELSIUS None) = [apologyMessage]"
    using insight_rejected_chunks[OF exhaustedGemini_fields(1) sampleSnapshot_weather exhaustedGemini_fields(4)]
    by (simp add: quotaError_def)
  from a b c quotaError_signals(1,3) show ?thesis
    by (simp add: offlineMessage_def apologyMessage_def)
qed

section \<open>Short queries and failed parses (C7)\<close>











section \<open>Failed fetches (C8)\<close>












end
